theory Spec2Isabelle
  imports Main "HOL-Library.Char_ord" "HOL-Library.List_Lexorder" "HOL-Library.Multiset"
begin

section \<open>Values and dictionaries\<close>

text \<open>
  The values that the compiler reads from metadata, defaults and the \<open>Meta\<close> options and
  writes into fragments. Python's \<open>dict\<close> keeps insertion order and has one entry per
  key, so it is an association list that is only changed through \<open>dict_set\<close>.
\<close>

datatype json =
    JNull
  | JBool bool
  | JInt int
  | JStr string
  | JArr "json list"
  | JObj "(string \<times> json) list"

type_synonym 'v dict = "(string \<times> 'v) list"

text \<open>\<open>d.get(k)\<close>: the value of the first (and only) entry for \<open>k\<close>.\<close>

fun dict_get :: "('k \<times> 'v) list \<Rightarrow> 'k \<Rightarrow> 'v option" where
  "dict_get [] k = None"
| "dict_get ((k', v) # d) k = (if k' = k then Some v else dict_get d k)"

text \<open>\<open>d[k] = v\<close>: an existing key keeps its place, a new key goes to the end.\<close>

fun dict_set :: "('k \<times> 'v) list \<Rightarrow> 'k \<Rightarrow> 'v \<Rightarrow> ('k \<times> 'v) list" where
  "dict_set [] k v = [(k, v)]"
| "dict_set ((k', v') # d) k v = (if k' = k then (k, v) # d else (k', v') # dict_set d k v)"

text \<open>\<open>d.update(e)\<close>: the entries of \<open>e\<close> are stored in \<open>d\<close> one after the other.\<close>

fun dict_update :: "('k \<times> 'v) list \<Rightarrow> ('k \<times> 'v) list \<Rightarrow> ('k \<times> 'v) list" where
  "dict_update d [] = d"
| "dict_update d ((k, v) # e) = dict_update (dict_set d k v) e"

definition dict_keys :: "('k \<times> 'v) list \<Rightarrow> 'k list" where
  "dict_keys d = map fst d"

section \<open>Errors and results\<close>

datatype error =
    UnsupportedValueError string
  | RegistryError string
  | KeyError string
  | AttributeError string
  | HandlerError string

text \<open>
  A call either raises (\<open>Inl\<close>) or returns (\<open>Inr\<close>); a call that exhausts the recursion
  depth it was given has no result (\<open>None\<close>).
\<close>

type_synonym 'a res = "(error + 'a) option"

definition ok :: "'a \<Rightarrow> 'a res" where
  "ok x = Some (Inr x)"

definition raise :: "error \<Rightarrow> 'a res" where
  "raise e = Some (Inl e)"

definition bind_res :: "'a res \<Rightarrow> ('a \<Rightarrow> 'b res) \<Rightarrow> 'b res" where
  "bind_res m f = (case m of None \<Rightarrow> None | Some (Inl e) \<Rightarrow> Some (Inl e) | Some (Inr x) \<Rightarrow> f x)"

definition lift_res :: "error + 'a \<Rightarrow> 'a res" where
  "lift_res r = Some r"

section \<open>Classes\<close>

text \<open>
  A Python class is known by its name and its base classes; \<open>issubclass c d\<close> holds when
  \<open>d\<close> is \<open>c\<close> itself or an ancestor of \<open>c\<close>.
\<close>

datatype pyclass = PyClass (cname: string) (bases: "pyclass list")

fun issubclass :: "pyclass \<Rightarrow> pyclass \<Rightarrow> bool" where
  "issubclass (PyClass n bs) d = (PyClass n bs = d \<or> list_ex (\<lambda>b. issubclass b d) bs)"

section \<open>The schema description read by the compiler\<close>

text \<open>The Python types that key \<open>TYPE_MAP\<close>, and any other type a schema may map.\<close>

datatype pytype =
    Py_dict | Py_list | Py_time | Py_timedelta | Py_datetime | Py_date | Py_UUID
  | Py_text_type | Py_binary_type | Py_Decimal | Py_set | Py_tuple | Py_float | Py_int
  | Py_bool | Py_other string

text \<open>A value of the field-class mapping: a Python type, or the name of a method.\<close>

datatype mapval = PT pytype | Meth string

text \<open>A validator object: its class and its constructor arguments.\<close>

record validator =
  vclass :: pyclass
  vargs :: "json dict"

text \<open>The options of a schema's \<open>Meta\<close>; \<open>None\<close> is an attribute that is not there.\<close>

record meta =
  additional_properties :: "json option"
  unknown :: "json option"

text \<open>
  A field, a schema class and a schema instance, with the attributes that the compiler
  reads. \<open>default_value = None\<close> is marshmallow's \<open>missing\<close>;
  \<open>jsonschema_type_mapping\<close> is what the field's own \<open>_jsonschema_type_mapping()\<close>
  returns when its class has that method; \<open>inner\<close> is the item field of a list field;
  \<open>nested\<close>, \<open>only\<close>, \<open>exclude\<close> and \<open>many\<close> are those of a nested field, whose target
  is a registered class name, a schema class or a schema instance.
\<close>

datatype field = Field
    (fclass: pyclass)
    (name: string)
    (attribute: "string option")
    (required: bool)
    (dump_only: bool)
    (default_value: "json option")
    (metadata: "json dict")
    (validators: "validator list")
    (jsonschema_type_mapping: "json option")
    (inner: "field option")
    (nested: "nested_target option")
    (only: "string list option")
    (exclude: "string list")
    (many: bool)
and nested_target =
    ByName string
  | ByClass schema_class
  | ByInstance schema
and schema_class = SchemaClass
    (sc_name: string)
    (Meta: meta)
    (TYPE_MAPPING: "(pytype \<times> pyclass) list")
    (declared_fields: "(string \<times> field) list")
and schema = Schema
    (cls: schema_class)
    (schema_fields: "(string \<times> field) list")

text \<open>
  What is outside \<open>base.py\<close> and used by it: marshmallow's registry of schema classes by
  name, and the three handlers of \<open>validation.py\<close>. They are parameters of the model.
\<close>

type_synonym handler = "json \<Rightarrow> field \<Rightarrow> validator \<Rightarrow> schema \<Rightarrow> error + json"

record env =
  class_registry :: "(string \<times> schema_class) list"
  handle_length :: handler
  handle_one_of :: handler
  handle_range :: handler

section \<open>Tables and constants\<close>

text \<open>\<open>TYPE_MAP\<close>, in the order of the source.\<close>

definition TYPE_MAP :: "(pytype \<times> json dict) list" where
  "TYPE_MAP =
    [(Py_dict, [(''type'', JStr ''object'')]),
     (Py_list, [(''type'', JStr ''array'')]),
     (Py_time, [(''type'', JStr ''string''), (''format'', JStr ''time'')]),
     (Py_timedelta, [(''type'', JStr ''string'')]),
     (Py_datetime, [(''type'', JStr ''string''), (''format'', JStr ''date-time'')]),
     (Py_date, [(''type'', JStr ''string''), (''format'', JStr ''date'')]),
     (Py_UUID, [(''type'', JStr ''string''), (''format'', JStr ''uuid'')]),
     (Py_text_type, [(''type'', JStr ''string'')]),
     (Py_binary_type, [(''type'', JStr ''string'')]),
     (Py_Decimal, [(''type'', JStr ''number''), (''format'', JStr ''decimal'')]),
     (Py_set, [(''type'', JStr ''array'')]),
     (Py_tuple, [(''type'', JStr ''array'')]),
     (Py_float, [(''type'', JStr ''number''), (''format'', JStr ''float'')]),
     (Py_int, [(''type'', JStr ''number''), (''format'', JStr ''integer'')]),
     (Py_bool, [(''type'', JStr ''boolean'')])]"

text \<open>The classes of marshmallow that \<open>base.py\<close> names, with marshmallow's ancestry.\<close>

definition fields_Field :: pyclass where "fields_Field = PyClass ''Field'' []"
definition fields_String :: pyclass where "fields_String = PyClass ''String'' [fields_Field]"
definition fields_Email :: pyclass where "fields_Email = PyClass ''Email'' [fields_String]"
definition fields_Url :: pyclass where "fields_Url = PyClass ''Url'' [fields_String]"
definition fields_Mapping :: pyclass where "fields_Mapping = PyClass ''Mapping'' [fields_Field]"
definition fields_Dict :: pyclass where "fields_Dict = PyClass ''Dict'' [fields_Mapping]"
definition fields_List :: pyclass where "fields_List = PyClass ''List'' [fields_Field]"
definition fields_DateTime :: pyclass where "fields_DateTime = PyClass ''DateTime'' [fields_Field]"
definition fields_Nested :: pyclass where "fields_Nested = PyClass ''Nested'' [fields_Field]"
definition fields_Number :: pyclass where "fields_Number = PyClass ''Number'' [fields_Field]"

definition validate_Validator :: pyclass where "validate_Validator = PyClass ''Validator'' []"
definition validate_Length :: pyclass where
  "validate_Length = PyClass ''Length'' [validate_Validator]"
definition validate_OneOf :: pyclass where
  "validate_OneOf = PyClass ''OneOf'' [validate_Validator]"
definition validate_Range :: pyclass where
  "validate_Range = PyClass ''Range'' [validate_Validator]"

text \<open>
  \<open>FIELD_VALIDATORS\<close>: a dict keyed by the three validator classes, so a lookup compares
  the class itself.
\<close>

definition FIELD_VALIDATORS :: "env \<Rightarrow> (pyclass \<times> handler) list" where
  "FIELD_VALIDATORS w =
    [(validate_Length, handle_length w),
     (validate_OneOf, handle_one_of w),
     (validate_Range, handle_range w)]"

text \<open>
  Modelled from the spec: the constants \<open>RAISE\<close>, \<open>EXCLUDE\<close> and \<open>INCLUDE\<close> come from the
  compatibility module, which is not among the sources. They are the three values of the
  unknown-field policy, "reject unknown", "drop unknown" and "accept unknown", which
  marshmallow spells \<open>raise\<close>, \<open>exclude\<close> and \<open>include\<close>.
\<close>

definition RAISE :: json where "RAISE = JStr ''raise''"
definition EXCLUDE :: json where "EXCLUDE = JStr ''exclude''"
definition INCLUDE :: json where "INCLUDE = JStr ''include''"

text \<open>
  Python's \<open>==\<close> on these values: \<open>True\<close> and \<open>False\<close> are the integers 1 and 0, every
  other pair of values of different kinds is unequal.
\<close>

fun py_eq :: "json \<Rightarrow> json \<Rightarrow> bool" where
  "py_eq (JBool a) (JInt i) = ((if a then 1 else 0) = i)"
| "py_eq (JInt i) (JBool a) = ((if a then 1 else 0) = i)"
| "py_eq x y = (x = y)"

text \<open>\<open>x in (a, b, ...)\<close>\<close>

definition py_in :: "json \<Rightarrow> json list \<Rightarrow> bool" where
  "py_in x ys = list_ex (py_eq x) ys"

section \<open>\<open>_resolve_additional_properties\<close>\<close>

text \<open>\<open>getattr(meta, a, None)\<close>: an attribute that is missing reads as \<open>None\<close>.\<close>

definition getattr_or_None :: "json option \<Rightarrow> json" where
  "getattr_or_None a = (case a of None \<Rightarrow> JNull | Some v \<Rightarrow> v)"

definition resolve_additional_properties :: "schema_class \<Rightarrow> error + json" where
  "resolve_additional_properties c =
    (let meta = Meta c;
         additional_properties = getattr_or_None (additional_properties meta)
     in if additional_properties \<noteq> JNull then
          (if py_in additional_properties [JBool True, JBool False]
           then Inr additional_properties
           else Inl (UnsupportedValueError
                  ''`additional_properties` must be either True or False''))
        else
          (let unknown = getattr_or_None (unknown meta)
           in if unknown = JNull then Inr (JBool False)
              else if py_in unknown [RAISE, EXCLUDE] then Inr (JBool False)
              else if py_eq unknown INCLUDE then Inr (JBool True)
              else Inl (UnsupportedValueError ''Unknown value for `unknown`'')))"

section \<open>The compiler \<open>JSONSchema\<close>\<close>

text \<open>
  The attributes of a \<open>JSONSchema\<close> instance: \<open>_nested_schema_classes\<close>, \<open>nested\<close> and
  \<open>obj\<close> (unset until the first \<open>dump\<close>). Every method takes the instance and returns it
  updated.
\<close>

record JSONSchema =
  nested_schema_classes :: "json dict"
  js_nested :: bool
  js_obj :: "schema option"

text \<open>\<open>__init__\<close>: the cache of nested schemas starts empty.\<close>

definition JSONSchema_init :: "bool \<Rightarrow> JSONSchema" where
  "JSONSchema_init n = \<lparr>nested_schema_classes = [], js_nested = n, js_obj = None\<rparr>"

text \<open>
  The methods call \<open>_get_schema_for_field\<close> recursively. Each is defined over the function
  \<open>rec\<close> that answers these calls; the recursion is closed at the end of the section.
\<close>

type_synonym rec_call = "JSONSchema \<Rightarrow> schema \<Rightarrow> field \<Rightarrow> (json \<times> JSONSchema) res"

text \<open>
  \<open>_get_default_mapping\<close>: the schema's \<open>TYPE_MAPPING\<close> turned around (a later type
  replaces an earlier one of the same field class), then the seven fixed entries.
\<close>

definition get_default_mapping :: "schema \<Rightarrow> (pyclass \<times> mapval) list" where
  "get_default_mapping obj =
    (let mapping = dict_update [] (map (\<lambda>(k, v). (v, PT k)) (TYPE_MAPPING (cls obj)))
     in dict_update mapping
          [(fields_Email, PT Py_text_type),
           (fields_Dict, PT Py_dict),
           (fields_Url, PT Py_text_type),
           (fields_List, PT Py_list),
           (fields_DateTime, PT Py_datetime),
           (fields_Nested, Meth ''_from_nested_schema''),
           (fields_Number, PT Py_Decimal)])"

text \<open>\<open>sorted(obj.fields.items())\<close>: by field name, which is the key of the dict.\<close>

definition sorted_fields :: "schema \<Rightarrow> (string \<times> field) list" where
  "sorted_fields obj = sort_key fst (schema_fields obj)"

fun properties_loop ::
  "rec_call \<Rightarrow> JSONSchema \<Rightarrow> schema \<Rightarrow> (string \<times> field) list \<Rightarrow> json dict
    \<Rightarrow> (json dict \<times> JSONSchema) res" where
  "properties_loop rec self obj [] properties = ok (properties, self)"
| "properties_loop rec self obj ((field_name, field) # rest) properties =
    bind_res (rec self obj field) (\<lambda>(schema, self').
      properties_loop rec self' obj rest (dict_set properties (name field) schema))"

definition get_properties ::
  "rec_call \<Rightarrow> JSONSchema \<Rightarrow> schema \<Rightarrow> (json dict \<times> JSONSchema) res" where
  "get_properties rec self obj = properties_loop rec self obj (sorted_fields obj) []"

text \<open>\<open>get_required\<close>: \<open>None\<close> is marshmallow's \<open>missing\<close>, returned for the empty list.\<close>

definition get_required :: "schema \<Rightarrow> json option" where
  "get_required obj =
    (let required = map (\<lambda>(field_name, field). name field)
                      (filter (\<lambda>(field_name, field). required field) (sorted_fields obj))
     in if required = [] then None else Some (JArr (map JStr required)))"

text \<open>
  The two lines ``doubled up to maintain backwards compatibility'':
  \<open>metadata = field.metadata.get("metadata", {})\<close>, then
  \<open>metadata.update(field.metadata)\<close>. Only a dict has \<open>update\<close>.
\<close>

definition effective_metadata :: "json dict \<Rightarrow> error + json dict" where
  "effective_metadata fm =
    (case dict_get fm ''metadata'' of
       None \<Rightarrow> Inr (dict_update [] fm)
     | Some (JObj sub) \<Rightarrow> Inr (dict_update sub fm)
     | Some _ \<Rightarrow> Inl (AttributeError ''update''))"

text \<open>The loop that copies every entry but \<open>metadata\<close> into the fragment.\<close>

fun copy_metadata :: "json dict \<Rightarrow> json dict \<Rightarrow> json dict" where
  "copy_metadata json_schema [] = json_schema"
| "copy_metadata json_schema ((md_key, md_val) # rest) =
    (if md_key = ''metadata'' then copy_metadata json_schema rest
     else copy_metadata (dict_set json_schema md_key md_val) rest)"

text \<open>\<open>field.attribute or field.name\<close>: an empty attribute name counts as none.\<close>

definition attribute_or_name :: "field \<Rightarrow> string" where
  "attribute_or_name field =
    (case attribute field of
       None \<Rightarrow> name field
     | Some a \<Rightarrow> if a = [] then name field else a)"

text \<open>
  Modelled from the spec: \<open>list_inner\<close> comes from the compatibility module, which is not
  among the sources. It gives the item field of a list field, whose type the compiler
  resolves into \<open>items\<close>.
\<close>

definition list_inner :: "field \<Rightarrow> error + field" where
  "list_inner field =
    (case inner field of None \<Rightarrow> Inl (AttributeError ''inner'') | Some f \<Rightarrow> Inr f)"

definition from_python_type ::
  "rec_call \<Rightarrow> JSONSchema \<Rightarrow> schema \<Rightarrow> field \<Rightarrow> pytype \<Rightarrow> (json \<times> JSONSchema) res" where
  "from_python_type rec self obj field pytype =
    (let json_schema = [(''title'', JStr (attribute_or_name field))]
     in case dict_get TYPE_MAP pytype of
          None \<Rightarrow> raise (KeyError ''TYPE_MAP'')
        | Some entry \<Rightarrow>
           (let json_schema = dict_update json_schema entry;
                json_schema = (if dump_only field
                               then dict_set json_schema ''readonly'' (JBool True)
                               else json_schema);
                json_schema = (case default_value field of
                                 None \<Rightarrow> json_schema
                               | Some d \<Rightarrow> dict_set json_schema ''default'' d)
            in bind_res (lift_res (effective_metadata (metadata field))) (\<lambda>metadata.
                 let json_schema = copy_metadata json_schema metadata
                 in if issubclass (fclass field) fields_List then
                      bind_res (lift_res (list_inner field)) (\<lambda>inner_field.
                        bind_res (rec self obj inner_field) (\<lambda>(items, self').
                          ok (JObj (dict_set json_schema ''items'' items), self')))
                    else ok (JObj json_schema, self))))"

text \<open>\<open>_get_pytype\<close>: the first entry of the mapping whose class the field's class inherits.\<close>

fun get_pytype :: "field \<Rightarrow> (pyclass \<times> mapval) list \<Rightarrow> error + mapval" where
  "get_pytype field [] = Inl (UnsupportedValueError ''unsupported field type'')"
| "get_pytype field ((map_class, pytype) # mapping) =
    (if issubclass (fclass field) map_class then Inr pytype else get_pytype field mapping)"

text \<open>The loop over \<open>field.validators\<close> at the end of \<open>_get_schema_for_field\<close>.\<close>

fun apply_validators ::
  "env \<Rightarrow> json \<Rightarrow> field \<Rightarrow> validator list \<Rightarrow> schema \<Rightarrow> error + json" where
  "apply_validators w schema field [] obj = Inr schema"
| "apply_validators w schema field (v # vs) obj =
    (case dict_get (FIELD_VALIDATORS w) (vclass v) of
       None \<Rightarrow> apply_validators w schema field vs obj
     | Some h \<Rightarrow>
        (case h schema field v obj of
           Inl e \<Rightarrow> Inl e
         | Inr schema' \<Rightarrow> apply_validators w schema' field vs obj))"

text \<open>\<open>wrap\<close>, the hook that runs on the dumped data.\<close>

definition wrap :: "JSONSchema \<Rightarrow> json dict \<Rightarrow> (json dict \<times> JSONSchema) res" where
  "wrap self data =
    (if js_nested self then ok (data, self)
     else case js_obj self of
       None \<Rightarrow> raise (AttributeError ''obj'')
     | Some obj \<Rightarrow>
        (let c = cls obj; nm = sc_name c
         in bind_res (lift_res (resolve_additional_properties c)) (\<lambda>ap.
              let data = dict_set data ''additionalProperties'' ap;
                  self = self\<lparr>nested_schema_classes :=
                           dict_set (nested_schema_classes self) nm (JObj data)\<rparr>;
                  root = [(''$schema'', JStr ''http://json-schema.org/draft-07/schema#''),
                          (''definitions'', JObj (nested_schema_classes self)),
                          (''$ref'', JStr (''#/definitions/'' @ nm))]
              in ok (root, self))))"

text \<open>
  \<open>dump\<close>: the instance keeps \<open>obj\<close>, marshmallow serialises the three declared fields
  \<open>properties\<close>, \<open>type\<close> and \<open>required\<close> in this order, leaving out a field whose value
  is \<open>missing\<close>, and then runs the hook.
\<close>

definition serialize :: "json dict \<Rightarrow> json option \<Rightarrow> json dict" where
  "serialize properties required_value =
    (let data = [(''properties'', JObj properties), (''type'', JStr ''object'')]
     in case required_value of
          None \<Rightarrow> data
        | Some r \<Rightarrow> dict_set data ''required'' r)"

definition dump :: "rec_call \<Rightarrow> JSONSchema \<Rightarrow> schema \<Rightarrow> (json dict \<times> JSONSchema) res" where
  "dump rec self obj =
    (let self = self\<lparr>js_obj := Some obj\<rparr>
     in bind_res (get_properties rec self obj) (\<lambda>(properties, self).
          wrap self (serialize properties (get_required obj))))"

text \<open>\<open>get_class\<close> of marshmallow's class registry.\<close>

definition get_class :: "env \<Rightarrow> string \<Rightarrow> error + schema_class" where
  "get_class w n =
    (case dict_get (class_registry w) n of
       None \<Rightarrow> Inl (RegistryError n)
     | Some c \<Rightarrow> Inr c)"

text \<open>
  \<open>nested(only=only, exclude=exclude)\<close>: the instance has the declared fields that
  \<open>only\<close> keeps and \<open>exclude\<close> does not remove.
\<close>

definition instantiate :: "schema_class \<Rightarrow> string list option \<Rightarrow> string list \<Rightarrow> schema" where
  "instantiate c only_names exclude_names =
    Schema c
      (filter (\<lambda>(field_name, field).
                (case only_names of None \<Rightarrow> True | Some ns \<Rightarrow> field_name \<in> set ns)
                \<and> field_name \<notin> set exclude_names)
         (declared_fields c))"

text \<open>
  The first part of \<open>_from_nested_schema\<close>: the name, the class and the instance of the
  target.
\<close>

definition resolve_nested ::
  "env \<Rightarrow> field \<Rightarrow> error + (string \<times> schema_class \<times> schema)" where
  "resolve_nested w field =
    (case nested field of
       None \<Rightarrow> Inl (AttributeError ''nested'')
     | Some (ByName n) \<Rightarrow>
        (case get_class w n of
           Inl e \<Rightarrow> Inl e
         | Inr c \<Rightarrow> Inr (sc_name c, c, instantiate c (only field) (exclude field)))
     | Some (ByClass c) \<Rightarrow> Inr (sc_name c, c, instantiate c (only field) (exclude field))
     | Some (ByInstance i) \<Rightarrow> Inr (sc_name (cls i), cls i, i))"

text \<open>
  The rest of \<open>_from_nested_schema\<close>: the guard and the nested dump by a new compiler
  (\<open>dot_data_backwards_compatible\<close> of the compatibility module hands on the dumped
  data), the reference fragment with the metadata of the field, and the wrapper of a
  \<open>many\<close> field. An exception ends the call; the instance it leaves behind is not part
  of the result.
\<close>

definition from_nested_schema ::
  "rec_call \<Rightarrow> env \<Rightarrow> JSONSchema \<Rightarrow> schema \<Rightarrow> field \<Rightarrow> (json \<times> JSONSchema) res" where
  "from_nested_schema rec w self obj field =
    bind_res (lift_res (resolve_nested w field)) (\<lambda>(nm, nested_cls, nested_instance).
      let outer_name = sc_name (cls obj)
      in bind_res
           (if nm \<notin> set (dict_keys (nested_schema_classes self)) \<and> nm \<noteq> outer_name then
              (let wrapped_nested = JSONSchema_init True
               in bind_res (dump rec wrapped_nested nested_instance)
                    (\<lambda>(wrapped_dumped, wrapped_nested).
                      bind_res (lift_res (resolve_additional_properties nested_cls)) (\<lambda>ap.
                        let wrapped_dumped = dict_set wrapped_dumped ''additionalProperties'' ap;
                            reg = dict_set (nested_schema_classes self) nm (JObj wrapped_dumped);
                            reg = dict_update reg (nested_schema_classes wrapped_nested)
                        in ok (self\<lparr>nested_schema_classes := reg\<rparr>))))
            else ok self)
           (\<lambda>self.
             let schema = [(''type'', JStr ''object''),
                           (''$ref'', JStr (''#/definitions/'' @ nm))]
             in bind_res (lift_res (effective_metadata (metadata field))) (\<lambda>metadata.
                  let schema = copy_metadata schema metadata;
                      schema = (if many field
                                then [(''type'', if required field then JStr ''array''
                                                 else JArr [JStr ''array'', JStr ''null'']),
                                      (''items'', JObj schema)]
                                else schema)
                  in ok (JObj schema, self))))"

text \<open>
  \<open>_get_schema_for_field\<close>, over the function that answers its recursive calls. Its
  first part chooses the fragment: the field's own \<open>_jsonschema_type_mapping()\<close>, else
  the metadata entry of that name, else the mapping of field classes, where
  \<open>getattr(self, pytype)\<close> finds the one method that the mapping names. Its second part
  is the loop over the validators.
\<close>

definition resolve_schema ::
  "rec_call \<Rightarrow> env \<Rightarrow> JSONSchema \<Rightarrow> schema \<Rightarrow> field \<Rightarrow> (json \<times> JSONSchema) res" where
  "resolve_schema rec w self obj field =
    (let mapping = get_default_mapping obj
     in case jsonschema_type_mapping field of
          Some schema \<Rightarrow> ok (schema, self)
        | None \<Rightarrow>
           (case dict_get (metadata field) ''_jsonschema_type_mapping'' of
              Some schema \<Rightarrow> ok (schema, self)
            | None \<Rightarrow>
               bind_res (lift_res (get_pytype field mapping)) (\<lambda>pytype.
                 case pytype of
                   Meth m \<Rightarrow>
                     if m = ''_from_nested_schema''
                     then from_nested_schema rec w self obj field
                     else raise (AttributeError m)
                 | PT p \<Rightarrow> from_python_type rec self obj field p)))"

definition get_schema_for_field_body ::
  "rec_call \<Rightarrow> env \<Rightarrow> JSONSchema \<Rightarrow> schema \<Rightarrow> field \<Rightarrow> (json \<times> JSONSchema) res" where
  "get_schema_for_field_body rec w self obj field =
    bind_res (resolve_schema rec w self obj field) (\<lambda>(schema, self).
      bind_res (lift_res (apply_validators w schema field (validators field) obj))
        (\<lambda>schema. ok (schema, self)))"

text \<open>
  The recursion is closed over the depth of calls that the interpreter allows: with no
  depth left a call of \<open>_get_schema_for_field\<close> does not return.
\<close>

primrec get_schema_for_field ::
  "nat \<Rightarrow> env \<Rightarrow> JSONSchema \<Rightarrow> schema \<Rightarrow> field \<Rightarrow> (json \<times> JSONSchema) res" where
  "get_schema_for_field 0 w self obj field = None"
| "get_schema_for_field (Suc n) w self obj field =
    get_schema_for_field_body (get_schema_for_field n w) w self obj field"

text \<open>A call \<open>self.dump(obj)\<close> from outside, with the depth that is left for it.\<close>

definition JSONSchema_dump ::
  "nat \<Rightarrow> env \<Rightarrow> JSONSchema \<Rightarrow> schema \<Rightarrow> (json dict \<times> JSONSchema) res" where
  "JSONSchema_dump n w self obj = dump (get_schema_for_field n w) self obj"

section \<open>Handlers and example schemas\<close>

text \<open>
  The handlers of \<open>validation.py\<close> are not among the sources. The three definitions that
  follow are used for the example environment only; every property below holds for any
  handlers.
\<close>

text \<open>An optional argument of a validator, stored under a key when it is given.\<close>

definition set_opt :: "json dict \<Rightarrow> string \<Rightarrow> json option \<Rightarrow> json dict" where
  "set_opt d k v = (case v of None \<Rightarrow> d | Some x \<Rightarrow> dict_set d k x)"

text \<open>
  Modelled from the spec: \<open>handle_length\<close> of \<open>validation.py\<close>. ``If fragment's type is
  string, set \<open>minLength\<close>/\<open>maxLength\<close> from min/max, or both to \<open>equal\<close> when an
  exact-length constraint is given; if type is array, use \<open>minItems\<close>/\<open>maxItems\<close>
  instead.''
\<close>

definition spec_handle_length :: handler where
  "spec_handle_length schema field v obj =
    (case schema of
       JObj d \<Rightarrow>
        (let ty = dict_get d ''type'';
             ks = (if ty = Some (JStr ''string'') then Some (''minLength'', ''maxLength'')
                   else if ty = Some (JStr ''array'') then Some (''minItems'', ''maxItems'')
                   else None)
         in case ks of
              None \<Rightarrow> Inr schema
            | Some (mn, mx) \<Rightarrow>
               (case dict_get (vargs v) ''equal'' of
                  Some e \<Rightarrow> Inr (JObj (dict_set (dict_set d mn e) mx e))
                | None \<Rightarrow>
                   Inr (JObj (set_opt (set_opt d mn (dict_get (vargs v) ''min''))
                                mx (dict_get (vargs v) ''max'')))))
     | _ \<Rightarrow> Inr schema)"

text \<open>
  Modelled from the spec: \<open>handle_one_of\<close> of \<open>validation.py\<close>. ``Set \<open>enum\<close> to the
  ordered sequence of allowed choices.''
\<close>

definition spec_handle_one_of :: handler where
  "spec_handle_one_of schema field v obj =
    (case schema of
       JObj d \<Rightarrow> Inr (JObj (set_opt d ''enum'' (dict_get (vargs v) ''choices'')))
     | _ \<Rightarrow> Inr schema)"

text \<open>
  Modelled from the spec: \<open>handle_range\<close> of \<open>validation.py\<close>. ``Set
  \<open>minimum\<close>/\<open>maximum\<close> from min/max; when the constraint marks a bound exclusive, emit
  \<open>exclusiveMinimum\<close>/\<open>exclusiveMaximum\<close> as booleans alongside the corresponding
  bound.''
\<close>

definition spec_handle_range :: handler where
  "spec_handle_range schema field v obj =
    (case schema of
       JObj d \<Rightarrow>
        (let d = set_opt d ''minimum'' (dict_get (vargs v) ''min'');
             d = (if dict_get (vargs v) ''min_inclusive'' = Some (JBool False)
                  then dict_set d ''exclusiveMinimum'' (JBool True) else d);
             d = set_opt d ''maximum'' (dict_get (vargs v) ''max'');
             d = (if dict_get (vargs v) ''max_inclusive'' = Some (JBool False)
                  then dict_set d ''exclusiveMaximum'' (JBool True) else d)
         in Inr (JObj d))
     | _ \<Rightarrow> Inr schema)"

definition spec_env :: "(string \<times> schema_class) list \<Rightarrow> env" where
  "spec_env reg =
    \<lparr>class_registry = reg, handle_length = spec_handle_length,
     handle_one_of = spec_handle_one_of, handle_range = spec_handle_range\<rparr>"

text \<open>Further field classes of marshmallow and a part of its default \<open>TYPE_MAPPING\<close>.\<close>

definition fields_Integer :: pyclass where
  "fields_Integer = PyClass ''Integer'' [fields_Number]"

definition marshmallow_TYPE_MAPPING :: "(pytype \<times> pyclass) list" where
  "marshmallow_TYPE_MAPPING =
    [(Py_text_type, fields_String), (Py_binary_type, fields_String),
     (Py_datetime, fields_DateTime), (Py_int, fields_Integer)]"

definition no_meta :: meta where
  "no_meta = \<lparr>additional_properties = None, unknown = None\<rparr>"

text \<open>A field with nothing but its class and name.\<close>

definition plain_field :: "pyclass \<Rightarrow> string \<Rightarrow> field" where
  "plain_field c n = Field c n None False False None [] [] None None None None [] False"

text \<open>A validator of a user's own class, one that inherits \<open>Length\<close>, and two known ones.\<close>

definition ex_custom_validator :: validator where
  "ex_custom_validator = \<lparr>vclass = PyClass ''Regexp'' [validate_Validator], vargs = []\<rparr>"

definition ex_sub_length :: validator where
  "ex_sub_length =
    \<lparr>vclass = PyClass ''MyLength'' [validate_Length], vargs = [(''min'', JInt 2)]\<rparr>"

definition ex_length :: validator where
  "ex_length = \<lparr>vclass = validate_Length, vargs = [(''min'', JInt 1), (''max'', JInt 8)]\<rparr>"

definition ex_one_of :: validator where
  "ex_one_of =
    \<lparr>vclass = validate_OneOf, vargs = [(''choices'', JArr [JStr ''a'', JStr ''b''])]\<rparr>"

definition ex_string_fragment :: json where
  "ex_string_fragment = JObj [(''title'', JStr ''name''), (''type'', JStr ''string'')]"

definition ex_empty_schema :: schema where
  "ex_empty_schema = Schema (SchemaClass ''Empty'' no_meta marshmallow_TYPE_MAPPING []) []"

text \<open>A schema class whose \<open>Meta\<close> sets \<open>additional_properties = 1\<close>.\<close>

definition ex_int_override_class :: schema_class where
  "ex_int_override_class =
    SchemaClass ''Strict'' \<lparr>additional_properties = Some (JInt 1), unknown = None\<rparr>
      marshmallow_TYPE_MAPPING []"

text \<open>The example of the specification: a person with a name, an age and pets.\<close>

definition ex_Pet :: schema_class where
  "ex_Pet = SchemaClass ''Pet'' no_meta marshmallow_TYPE_MAPPING
    [(''id'', Field fields_String ''id'' None True False None [] [] None None None None [] False)]"

definition ex_pets_field :: field where
  "ex_pets_field =
    Field fields_Nested ''pets'' None False False None [] [] None None (Some (ByClass ex_Pet))
      None [] True"

definition ex_Person :: schema_class where
  "ex_Person = SchemaClass ''Person'' no_meta marshmallow_TYPE_MAPPING
    [(''name'', Field fields_String ''name'' None True False None [] [] None None None None []
        False),
     (''age'', Field fields_Integer ''age'' None False False (Some (JInt 0)) [] [] None None None
        None [] False),
     (''pets'', ex_pets_field)]"

definition ex_Pet_fragment :: json where
  "ex_Pet_fragment =
    JObj [(''properties'',
            JObj [(''id'', JObj [(''title'', JStr ''id''), (''type'', JStr ''string'')])]),
          (''type'', JStr ''object''), (''required'', JArr [JStr ''id'']),
          (''additionalProperties'', JBool False)]"

section \<open>What a call leaves of the instance\<close>

text \<open>
  A call of a method returns the instance with the same \<open>nested\<close> and \<open>obj\<close> and with
  every name that its cache had before.
\<close>

definition frame_ok :: "JSONSchema \<Rightarrow> JSONSchema \<Rightarrow> bool" where
  "frame_ok self self' \<longleftrightarrow>
     js_nested self' = js_nested self \<and> js_obj self' = js_obj self
     \<and> set (dict_keys (nested_schema_classes self))
         \<subseteq> set (dict_keys (nested_schema_classes self'))"

definition rec_frame :: "rec_call \<Rightarrow> bool" where
  "rec_frame rec \<longleftrightarrow>
     (\<forall>self obj field r self'.
        rec self obj field = Some (Inr (r, self')) \<longrightarrow> frame_ok self self')"




text \<open>Two dumps on one compiler: first the pet schema, then a schema without fields.\<close>

definition ex_Pet_document :: "json dict" where
  "ex_Pet_document =
    [(''$schema'', JStr ''http://json-schema.org/draft-07/schema#''),
     (''definitions'', JObj [(''Pet'', ex_Pet_fragment)]),
     (''$ref'', JStr ''#/definitions/Pet'')]"

definition ex_Pet_compiler :: JSONSchema where
  "ex_Pet_compiler =
    \<lparr>nested_schema_classes = [(''Pet'', ex_Pet_fragment)],
     js_nested = False, js_obj = Some (instantiate ex_Pet None [])\<rparr>"

definition ex_Empty_fragment :: json where
  "ex_Empty_fragment =
    JObj [(''properties'', JObj []), (''type'', JStr ''object''),
          (''additionalProperties'', JBool False)]"

definition ex_Empty_after_Pet_document :: "json dict" where
  "ex_Empty_after_Pet_document =
    [(''$schema'', JStr ''http://json-schema.org/draft-07/schema#''),
     (''definitions'', JObj [(''Pet'', ex_Pet_fragment), (''Empty'', ex_Empty_fragment)]),
     (''$ref'', JStr ''#/definitions/Empty'')]"

definition ex_Empty_after_Pet_compiler :: JSONSchema where
  "ex_Empty_after_Pet_compiler =
    \<lparr>nested_schema_classes = [(''Pet'', ex_Pet_fragment), (''Empty'', ex_Empty_fragment)],
     js_nested = False, js_obj = Some ex_empty_schema\<rparr>"

text \<open>
  Two schemas that nest each other by name, and a schema that nests itself.
\<close>

definition ex_field_b :: field where
  "ex_field_b =
    Field fields_Nested ''b'' None False False None [] [] None None (Some (ByName ''B''))
      None [] False"

definition ex_field_a :: field where
  "ex_field_a =
    Field fields_Nested ''a'' None False False None [] [] None None (Some (ByName ''A''))
      None [] False"

definition ex_A :: schema_class where
  "ex_A = SchemaClass ''A'' no_meta marshmallow_TYPE_MAPPING [(''b'', ex_field_b)]"

definition ex_B :: schema_class where
  "ex_B = SchemaClass ''B'' no_meta marshmallow_TYPE_MAPPING [(''a'', ex_field_a)]"

definition ex_Node :: schema_class where
  "ex_Node = SchemaClass ''Node'' no_meta marshmallow_TYPE_MAPPING
    [(''child'', Field fields_Nested ''child'' None False False None [] [] None None
        (Some (ByName ''Node'')) None [] False)]"

definition ex_mutual_env :: env where
  "ex_mutual_env = spec_env [(''A'', ex_A), (''B'', ex_B), (''Node'', ex_Node)]"


text \<open>The custom fragment of a field, if it has one: the method first, then the metadata.\<close>

definition custom_fragment :: "field \<Rightarrow> json option" where
  "custom_fragment field =
    (case jsonschema_type_mapping field of
       Some schema \<Rightarrow> Some schema
     | None \<Rightarrow> dict_get (metadata field) ''_jsonschema_type_mapping'')"




text \<open>The value of a key of a fragment.\<close>

definition json_get :: "json \<Rightarrow> string \<Rightarrow> json option" where
  "json_get j k = (case j of JObj d \<Rightarrow> dict_get d k | _ \<Rightarrow> None)"

section \<open>The metadata objects\<close>

text \<open>
  The methods above read the metadata of a field by value. In Python the metadata and its
  \<open>metadata\<close> sub-mapping are dict objects, and \<open>update\<close> changes the object it is called
  on. Here the dicts live in a store, at addresses; an entry of a dict is a plain value
  or the address of another dict.
\<close>

datatype pyval = PLit json | PRef nat

type_synonym store = "(nat \<times> (string \<times> pyval) list) list"

text \<open>The address of a dict that is newly made.\<close>

definition fresh_address :: "store \<Rightarrow> nat" where
  "fresh_address st = Suc (fold max (dict_keys st) 0)"

text \<open>
  The two lines \<open>metadata = field.metadata.get("metadata", {})\<close> and
  \<open>metadata.update(field.metadata)\<close> of \<open>_from_python_type\<close> and
  \<open>_from_nested_schema\<close>, for the field whose metadata is at the address \<open>a\<close>: the
  address of \<open>metadata\<close> and the store after the update. Without a sub-mapping
  \<open>metadata\<close> is a new dict; with one it is the sub-mapping itself.
\<close>

definition metadata_lines :: "store \<Rightarrow> nat \<Rightarrow> error + (nat \<times> store)" where
  "metadata_lines st a =
    (case dict_get st a of
       None \<Rightarrow> Inl (AttributeError ''metadata'')
     | Some fm \<Rightarrow>
        (case dict_get fm ''metadata'' of
           None \<Rightarrow>
             (let b = fresh_address st
              in Inr (b, dict_set st b (dict_update [] fm)))
         | Some (PRef b) \<Rightarrow>
             (case dict_get st b of
                None \<Rightarrow> Inl (AttributeError ''update'')
              | Some sub \<Rightarrow> Inr (b, dict_set st b (dict_update sub fm)))
         | Some (PLit v) \<Rightarrow> Inl (AttributeError ''update'')))"

text \<open>A dict of plain values as an object.\<close>

definition lit_dict :: "json dict \<Rightarrow> (string \<times> pyval) list" where
  "lit_dict d = map (\<lambda>(k, v). (k, PLit v)) d"

text \<open>
  The metadata of a field made with \<open>metadata={"description": "x"}\<close> where marshmallow
  keeps the keyword arguments as the metadata: the field's metadata at address 0 has the
  one entry \<open>metadata\<close>, the dict of the caller at address 1.
\<close>

definition ex_store :: store where
  "ex_store =
    [(0, [(''metadata'', PRef 1)]),
     (1, [(''description'', PLit (JStr ''x''))])]"

definition ex_store_after :: store where
  "ex_store_after =
    [(0, [(''metadata'', PRef 1)]),
     (1, [(''description'', PLit (JStr ''x'')), (''metadata'', PRef 1)])]"

text \<open>A range validator, and a string field with three validators.\<close>

definition ex_range :: validator where
  "ex_range = \<lparr>vclass = validate_Range, vargs = [(''min'', JInt 0), (''max'', JInt 9)]\<rparr>"

definition ex_validated_field :: field where
  "ex_validated_field =
    Field fields_String ''name'' None False False None []
      [ex_length, ex_custom_validator, ex_one_of] None None None None [] False"

definition ex_validated_fragment :: json where
  "ex_validated_fragment =
    JObj [(''title'', JStr ''name''), (''type'', JStr ''string''),
          (''minLength'', JInt 1), (''maxLength'', JInt 8),
          (''enum'', JArr [JStr ''a'', JStr ''b''])]"

text \<open>
  A field of a user's class that inherits \<open>String\<close>, with a validator of a class that
  inherits \<open>Length\<close> and a \<open>OneOf\<close> validator.
\<close>

definition ex_slug_field :: field where
  "ex_slug_field =
    Field (PyClass ''Slug'' [fields_String]) ''slug'' None False False None []
      [ex_sub_length, ex_one_of] None None None None [] False"

definition ex_slug_fragment :: json where
  "ex_slug_fragment =
    JObj [(''title'', JStr ''slug''), (''type'', JStr ''string''),
          (''enum'', JArr [JStr ''a'', JStr ''b''])]"

text \<open>A \<open>many\<close> field that nests the pet schema and has a custom fragment in its metadata.\<close>

definition ex_many_override_field :: field where
  "ex_many_override_field =
    Field fields_Nested ''pets'' None True False None
      [(''_jsonschema_type_mapping'', JObj [(''type'', JStr ''string'')])]
      [] None None (Some (ByClass ex_Pet)) None [] True"

text \<open>The nested compiler after the dump of the pet schema, and what it returns.\<close>

definition ex_Pet_nested_data :: "json dict" where
  "ex_Pet_nested_data =
    [(''properties'',
       JObj [(''id'', JObj [(''title'', JStr ''id''), (''type'', JStr ''string'')])]),
     (''type'', JStr ''object''), (''required'', JArr [JStr ''id''])]"

definition ex_Pet_nested_compiler :: JSONSchema where
  "ex_Pet_nested_compiler =
    \<lparr>nested_schema_classes = [], js_nested = True,
     js_obj = Some (instantiate ex_Pet None [])\<rparr>"

definition ex_pets_fragment :: json where
  "ex_pets_fragment =
    JObj [(''type'', JArr [JStr ''array'', JStr ''null'']),
          (''items'', JObj [(''type'', JStr ''object''),
                            (''$ref'', JStr ''#/definitions/Pet'')])]"





section \<open>Dictionaries: lemmas\<close>

lemma dict_get_set: "dict_get (dict_set d k v) k' = (if k' = k then Some v else dict_get d k')"
  by (induction d) auto

lemma dict_keys_set_eq:
  "dict_keys (dict_set d k v) = (if k \<in> set (dict_keys d) then dict_keys d else dict_keys d @ [k])"
  by (induction d) (force simp: dict_keys_def)+

lemma dict_keys_set: "set (dict_keys (dict_set d k v)) = insert k (set (dict_keys d))"
  by (auto simp: dict_keys_set_eq)

lemma dict_get_append:
  "dict_get (xs @ ys) k = (case dict_get xs k of Some v \<Rightarrow> Some v | None \<Rightarrow> dict_get ys k)"
  by (induction xs) auto

lemma dict_get_update:
  "dict_get (dict_update d e) k =
    (case dict_get (rev e) k of Some v \<Rightarrow> Some v | None \<Rightarrow> dict_get d k)"
proof (induction e arbitrary: d)
  case Nil
  then show ?case by simp
next
  case (Cons a e)
  obtain k' v' where a: "a = (k', v')" by (cases a)
  show ?case
    by (simp add: a Cons.IH dict_get_set dict_get_append split: option.splits)
qed

lemma dict_get_None_iff: "dict_get d k = None \<longleftrightarrow> k \<notin> set (dict_keys d)"
  by (induction d) (auto simp: dict_keys_def split: if_splits)


section \<open>Validators\<close>

lemma apply_validators_append:
  "apply_validators w s f (vs1 @ vs2) obj =
    (case apply_validators w s f vs1 obj of
       Inl e \<Rightarrow> Inl e
     | Inr s' \<Rightarrow> apply_validators w s' f vs2 obj)"
  by (induction vs1 arbitrary: s) (auto split: option.splits sum.splits)

lemma FIELD_VALIDATORS_None:
  "c \<noteq> validate_Length \<Longrightarrow> c \<noteq> validate_OneOf \<Longrightarrow> c \<noteq> validate_Range
    \<Longrightarrow> dict_get (FIELD_VALIDATORS w) c = None"
  by (simp add: FIELD_VALIDATORS_def)

lemma FIELD_VALIDATORS_known:
  "dict_get (FIELD_VALIDATORS w) validate_Length = Some (handle_length w)"
  "dict_get (FIELD_VALIDATORS w) validate_OneOf = Some (handle_one_of w)"
  "dict_get (FIELD_VALIDATORS w) validate_Range = Some (handle_range w)"
  by (simp_all add: FIELD_VALIDATORS_def validate_Length_def validate_OneOf_def
      validate_Range_def)

lemma get_schema_for_field_Suc:
  "get_schema_for_field (Suc n) w self obj field =
    (case resolve_schema (get_schema_for_field n w) w self obj field of
       None \<Rightarrow> None
     | Some (Inl e) \<Rightarrow> Some (Inl e)
     | Some (Inr (schema, self')) \<Rightarrow>
        (case apply_validators w schema field (validators field) obj of
           Inl e \<Rightarrow> Some (Inl e)
         | Inr out \<Rightarrow> Some (Inr (out, self'))))"
  by (simp add: get_schema_for_field_body_def bind_res_def lift_res_def ok_def
      split: option.splits sum.splits prod.splits)

text \<open>
  Claim C9. The validators of a field are applied to its fragment one after the other:
  \<open>_get_schema_for_field\<close> runs the loop on the fragment it has resolved; the loop hands
  the fragment to \<open>handle_length\<close>, \<open>handle_one_of\<close> or \<open>handle_range\<close> for a validator of
  class \<open>Length\<close>, \<open>OneOf\<close> or \<open>Range\<close> and goes on with what the handler returns (an
  error of the handler ends the call); a validator of any other class is passed over
  wherever it stands in the list, with no change of the fragment and no error.
\<close>

theorem validators_in_order_unrecognized_ignored:
  assumes "vclass vl = validate_Length"
    and "vclass vo = validate_OneOf"
    and "vclass vr = validate_Range"
    and "vclass vu \<notin> {validate_Length, validate_OneOf, validate_Range}"
  shows "get_schema_for_field (Suc n) w self obj field =
           (case resolve_schema (get_schema_for_field n w) w self obj field of
              None \<Rightarrow> None
            | Some (Inl e) \<Rightarrow> Some (Inl e)
            | Some (Inr (s, self')) \<Rightarrow>
               (case apply_validators w s field (validators field) obj of
                  Inl e \<Rightarrow> Some (Inl e)
                | Inr out \<Rightarrow> Some (Inr (out, self'))))
         \<and> apply_validators w schema field [] obj = Inr schema
         \<and> apply_validators w schema field (vl # vs) obj =
             (case handle_length w schema field vl obj of
                Inl e \<Rightarrow> Inl e
              | Inr schema' \<Rightarrow> apply_validators w schema' field vs obj)
         \<and> apply_validators w schema field (vo # vs) obj =
             (case handle_one_of w schema field vo obj of
                Inl e \<Rightarrow> Inl e
              | Inr schema' \<Rightarrow> apply_validators w schema' field vs obj)
         \<and> apply_validators w schema field (vr # vs) obj =
             (case handle_range w schema field vr obj of
                Inl e \<Rightarrow> Inl e
              | Inr schema' \<Rightarrow> apply_validators w schema' field vs obj)
         \<and> apply_validators w schema field (vu # vs) obj
             = apply_validators w schema field vs obj
         \<and> apply_validators w schema field (vs1 @ vu # vs2) obj
             = apply_validators w schema field (vs1 @ vs2) obj
         \<and> apply_validators w schema field [vu] obj = Inr schema
         \<and> apply_validators w schema field (vs1 @ vs2) obj
             = (case apply_validators w schema field vs1 obj of
                  Inl e \<Rightarrow> Inl e
                | Inr schema' \<Rightarrow> apply_validators w schema' field vs2 obj)"
proof -
  have none: "dict_get (FIELD_VALIDATORS w) (vclass vu) = None"
    using assms(4) by (simp add: FIELD_VALIDATORS_None)
  have skip: "\<And>s xs. apply_validators w s field (vu # xs) obj = apply_validators w s field xs obj"
    by (simp add: none)
  have mid: "apply_validators w schema field (vs1 @ vu # vs2) obj
          = apply_validators w schema field (vs1 @ vs2) obj"
    unfolding apply_validators_append [of _ _ _ vs1] skip ..
  have l: "apply_validators w schema field (vl # vs) obj =
             (case handle_length w schema field vl obj of
                Inl e \<Rightarrow> Inl e
              | Inr schema' \<Rightarrow> apply_validators w schema' field vs obj)"
    by (simp add: assms(1) FIELD_VALIDATORS_known)
  have o: "apply_validators w schema field (vo # vs) obj =
             (case handle_one_of w schema field vo obj of
                Inl e \<Rightarrow> Inl e
              | Inr schema' \<Rightarrow> apply_validators w schema' field vs obj)"
    by (simp add: assms(2) FIELD_VALIDATORS_known)
  have r: "apply_validators w schema field (vr # vs) obj =
             (case handle_range w schema field vr obj of
                Inl e \<Rightarrow> Inl e
              | Inr schema' \<Rightarrow> apply_validators w schema' field vs obj)"
    by (simp add: assms(3) FIELD_VALIDATORS_known)
  show ?thesis
    by (intro conjI get_schema_for_field_Suc l o r skip mid apply_validators_append)
       (simp_all add: none)
qed

theorem validators_in_order_unrecognized_ignored_witness:
  "vclass ex_length = validate_Length
   \<and> vclass ex_one_of = validate_OneOf
   \<and> vclass ex_range = validate_Range
   \<and> vclass ex_custom_validator \<notin> {validate_Length, validate_OneOf, validate_Range}
   \<and> get_schema_for_field (Suc 0) (spec_env []) (JSONSchema_init False) ex_empty_schema
        ex_validated_field
      = Some (Inr (ex_validated_fragment, JSONSchema_init False))
   \<and> apply_validators (spec_env []) ex_string_fragment ex_validated_field
        (validators ex_validated_field) ex_empty_schema
      = Inr ex_validated_fragment
   \<and> (get_schema_for_field (Suc 0) (spec_env []) (JSONSchema_init False) ex_empty_schema ex_validated_field =
               (case resolve_schema (get_schema_for_field 0 (spec_env [])) (spec_env []) (JSONSchema_init False) ex_empty_schema ex_validated_field of
                  None \<Rightarrow> None
                | Some (Inl e) \<Rightarrow> Some (Inl e)
                | Some (Inr (s, self')) \<Rightarrow>
                   (case apply_validators (spec_env []) s ex_validated_field (validators ex_validated_field) ex_empty_schema of
                      Inl e \<Rightarrow> Some (Inl e)
                    | Inr out \<Rightarrow> Some (Inr (out, self'))))
             \<and> apply_validators (spec_env []) ex_string_fragment ex_validated_field [] ex_empty_schema = Inr ex_string_fragment
             \<and> apply_validators (spec_env []) ex_string_fragment ex_validated_field (ex_length # [ex_custom_validator, ex_one_of]) ex_empty_schema =
                 (case handle_length (spec_env []) ex_string_fragment ex_validated_field ex_length ex_empty_schema of
                    Inl e \<Rightarrow> Inl e
                  | Inr schema' \<Rightarrow> apply_validators (spec_env []) schema' ex_validated_field [ex_custom_validator, ex_one_of] ex_empty_schema)
             \<and> apply_validators (spec_env []) ex_string_fragment ex_validated_field (ex_one_of # [ex_custom_validator, ex_one_of]) ex_empty_schema =
                 (case handle_one_of (spec_env []) ex_string_fragment ex_validated_field ex_one_of ex_empty_schema of
                    Inl e \<Rightarrow> Inl e
                  | Inr schema' \<Rightarrow> apply_validators (spec_env []) schema' ex_validated_field [ex_custom_validator, ex_one_of] ex_empty_schema)
             \<and> apply_validators (spec_env []) ex_string_fragment ex_validated_field (ex_range # [ex_custom_validator, ex_one_of]) ex_empty_schema =
                 (case handle_range (spec_env []) ex_string_fragment ex_validated_field ex_range ex_empty_schema of
                    Inl e \<Rightarrow> Inl e
                  | Inr schema' \<Rightarrow> apply_validators (spec_env []) schema' ex_validated_field [ex_custom_validator, ex_one_of] ex_empty_schema)
             \<and> apply_validators (spec_env []) ex_string_fragment ex_validated_field (ex_custom_validator # [ex_custom_validator, ex_one_of]) ex_empty_schema
                 = apply_validators (spec_env []) ex_string_fragment ex_validated_field [ex_custom_validator, ex_one_of] ex_empty_schema
             \<and> apply_validators (spec_env []) ex_string_fragment ex_validated_field ([ex_length] @ ex_custom_validator # [ex_one_of]) ex_empty_schema
                 = apply_validators (spec_env []) ex_string_fragment ex_validated_field ([ex_length] @ [ex_one_of]) ex_empty_schema
             \<and> apply_validators (spec_env []) ex_string_fragment ex_validated_field [ex_custom_validator] ex_empty_schema = Inr ex_string_fragment
             \<and> apply_validators (spec_env []) ex_string_fragment ex_validated_field ([ex_length] @ [ex_one_of]) ex_empty_schema
                 = (case apply_validators (spec_env []) ex_string_fragment ex_validated_field [ex_length] ex_empty_schema of
                      Inl e \<Rightarrow> Inl e
                    | Inr schema' \<Rightarrow> apply_validators (spec_env []) schema' ex_validated_field [ex_one_of] ex_empty_schema))"
proof -
  have h1: "vclass ex_length = validate_Length" by (simp add: ex_length_def)
  have h2: "vclass ex_one_of = validate_OneOf" by (simp add: ex_one_of_def)
  have h3: "vclass ex_range = validate_Range" by (simp add: ex_range_def)
  have h4: "vclass ex_custom_validator \<notin> {validate_Length, validate_OneOf, validate_Range}"
    by (simp add: ex_custom_validator_def validate_Length_def validate_OneOf_def
        validate_Range_def)
  have e1: "get_schema_for_field (Suc 0) (spec_env []) (JSONSchema_init False) ex_empty_schema
        ex_validated_field
      = Some (Inr (ex_validated_fragment, JSONSchema_init False))"
    by code_simp
  have e2: "apply_validators (spec_env []) ex_string_fragment ex_validated_field
        (validators ex_validated_field) ex_empty_schema
      = Inr ex_validated_fragment"
    by code_simp
  from validators_in_order_unrecognized_ignored [OF h1 h2 h3 h4] h1 h2 h3 h4 e1 e2
  show ?thesis by blast
qed

lemma recognized_not_strict_subclass:
  assumes "c \<in> {validate_Length, validate_OneOf, validate_Range}"
    and "issubclass x c" and "x \<noteq> c"
  shows "x \<notin> {validate_Length, validate_OneOf, validate_Range}"
  using assms
  by (auto simp: validate_Length_def validate_OneOf_def validate_Range_def
      validate_Validator_def)

lemma get_pytype_subclass:
  "(map_class, p) \<in> set mapping \<Longrightarrow> issubclass (fclass fld) map_class
    \<Longrightarrow> \<exists>p'. get_pytype fld mapping = Inr p'"
  by (induction mapping) auto

lemma get_pytype_first_match:
  assumes "\<forall>(c', q) \<in> set pre. \<not> issubclass (fclass fld) c'"
    and "issubclass (fclass fld) map_class"
  shows "get_pytype fld (pre @ (map_class, p) # post) = Inr p"
  using assms by (induction pre) auto

lemma get_pytype_no_match:
  assumes "\<forall>(c', q) \<in> set mapping. \<not> issubclass (fclass fld) c'"
  shows "get_pytype fld mapping = Inl (UnsupportedValueError ''unsupported field type'')"
  using assms by (induction mapping) auto

text \<open>
  Claim C10. The validators are looked up by their class itself: a validator whose class
  inherits \<open>Length\<close>, \<open>OneOf\<close> or \<open>Range\<close> without being that class is passed over
  wherever it stands among the validators of a field, and \<open>_get_schema_for_field\<close>
  returns what it returns without it. The mapping of field classes is searched by
  ancestry instead: a field gets the first entry whose class its own class is or
  inherits, and the error only when its class inherits none of them.
\<close>

theorem validator_dispatch_by_exact_class:
  assumes "c \<in> {validate_Length, validate_OneOf, validate_Range}"
    and "issubclass (vclass v) c"
    and "vclass v \<noteq> c"
  shows "apply_validators w schema field (v # vs) obj = apply_validators w schema field vs obj
         \<and> apply_validators w schema field (vs1 @ v # vs2) obj
             = apply_validators w schema field (vs1 @ vs2) obj
         \<and> (validators field = vs1 @ v # vs2 \<longrightarrow>
              get_schema_for_field (Suc n) w self obj field =
                (case resolve_schema (get_schema_for_field n w) w self obj field of
                   None \<Rightarrow> None
                 | Some (Inl e) \<Rightarrow> Some (Inl e)
                 | Some (Inr (s, self')) \<Rightarrow>
                    (case apply_validators w s field (vs1 @ vs2) obj of
                       Inl e \<Rightarrow> Some (Inl e)
                     | Inr out \<Rightarrow> Some (Inr (out, self')))))
         \<and> ((\<forall>(c', q) \<in> set pre. \<not> issubclass (fclass fld) c')
              \<and> issubclass (fclass fld) map_class \<longrightarrow>
              get_pytype fld (pre @ (map_class, p) # post) = Inr p)
         \<and> ((\<forall>(c', q) \<in> set mapping. \<not> issubclass (fclass fld) c') \<longrightarrow>
              get_pytype fld mapping = Inl (UnsupportedValueError ''unsupported field type''))
         \<and> ((map_class, p) \<in> set mapping \<and> issubclass (fclass fld) map_class
              \<longrightarrow> (\<exists>p'. get_pytype fld mapping = Inr p'))"
proof -
  have "vclass v \<notin> {validate_Length, validate_OneOf, validate_Range}"
    using assms by (rule recognized_not_strict_subclass)
  then have none: "dict_get (FIELD_VALIDATORS w) (vclass v) = None"
    by (simp add: FIELD_VALIDATORS_None)
  have skip: "\<And>s xs. apply_validators w s field (v # xs) obj = apply_validators w s field xs obj"
    by (simp add: none)
  have mid: "\<And>s. apply_validators w s field (vs1 @ v # vs2) obj
          = apply_validators w s field (vs1 @ vs2) obj"
    unfolding apply_validators_append [of _ _ _ vs1] skip ..
  have tie: "validators field = vs1 @ v # vs2 \<longrightarrow>
              get_schema_for_field (Suc n) w self obj field =
                (case resolve_schema (get_schema_for_field n w) w self obj field of
                   None \<Rightarrow> None
                 | Some (Inl e) \<Rightarrow> Some (Inl e)
                 | Some (Inr (s, self')) \<Rightarrow>
                    (case apply_validators w s field (vs1 @ vs2) obj of
                       Inl e \<Rightarrow> Some (Inl e)
                     | Inr out \<Rightarrow> Some (Inr (out, self'))))"
  proof
    assume a: "validators field = vs1 @ v # vs2"
    show "get_schema_for_field (Suc n) w self obj field =
                (case resolve_schema (get_schema_for_field n w) w self obj field of
                   None \<Rightarrow> None
                 | Some (Inl e) \<Rightarrow> Some (Inl e)
                 | Some (Inr (s, self')) \<Rightarrow>
                    (case apply_validators w s field (vs1 @ vs2) obj of
                       Inl e \<Rightarrow> Some (Inl e)
                     | Inr out \<Rightarrow> Some (Inr (out, self'))))"
      by (simp only: get_schema_for_field_Suc a mid)
  qed
  from skip mid tie show ?thesis
    by (auto intro: get_pytype_subclass get_pytype_first_match get_pytype_no_match
        simp del: get_schema_for_field.simps)
qed

theorem validator_dispatch_by_exact_class_witness:
  "validate_Length \<in> {validate_Length, validate_OneOf, validate_Range}
   \<and> issubclass (vclass ex_sub_length) validate_Length
   \<and> vclass ex_sub_length \<noteq> validate_Length
   \<and> apply_validators (spec_env []) ex_string_fragment ex_slug_field
        (ex_sub_length # [ex_one_of]) ex_empty_schema
      = apply_validators (spec_env []) ex_string_fragment ex_slug_field [ex_one_of]
          ex_empty_schema
   \<and> validators ex_slug_field = [] @ ex_sub_length # [ex_one_of]
   \<and> get_schema_for_field (Suc 0) (spec_env []) (JSONSchema_init False) ex_empty_schema
        ex_slug_field =
       (case resolve_schema (get_schema_for_field 0 (spec_env [])) (spec_env [])
               (JSONSchema_init False) ex_empty_schema ex_slug_field of
          None \<Rightarrow> None
        | Some (Inl e) \<Rightarrow> Some (Inl e)
        | Some (Inr (s, self')) \<Rightarrow>
           (case apply_validators (spec_env []) s ex_slug_field ([] @ [ex_one_of])
                   ex_empty_schema of
              Inl e \<Rightarrow> Some (Inl e)
            | Inr out \<Rightarrow> Some (Inr (out, self'))))
   \<and> get_schema_for_field (Suc 0) (spec_env []) (JSONSchema_init False) ex_empty_schema
        ex_slug_field
      = Some (Inr (ex_slug_fragment, JSONSchema_init False))
   \<and> json_get ex_slug_fragment ''minLength'' = None
   \<and> fclass ex_slug_field \<noteq> fields_String
   \<and> \<not> issubclass (fclass ex_slug_field) fields_DateTime
   \<and> issubclass (fclass ex_slug_field) fields_String
   \<and> get_pytype ex_slug_field
        ([(fields_DateTime, PT Py_datetime)] @ (fields_String, PT Py_text_type)
           # [(fields_Field, PT Py_dict)])
      = Inr (PT Py_text_type)
   \<and> \<not> issubclass (fclass (plain_field fields_Integer ''n'')) fields_String
   \<and> get_pytype (plain_field fields_Integer ''n'') [(fields_String, PT Py_text_type)]
      = Inl (UnsupportedValueError ''unsupported field type'')"
proof -
  have c: "validate_Length \<in> {validate_Length, validate_OneOf, validate_Range}" by simp
  have s: "issubclass (vclass ex_sub_length) validate_Length"
    by (simp add: ex_sub_length_def validate_Length_def)
  have n: "vclass ex_sub_length \<noteq> validate_Length"
    by (simp add: ex_sub_length_def validate_Length_def)
  have e0: "validators ex_slug_field = [] @ ex_sub_length # [ex_one_of]"
    by (simp add: ex_slug_field_def)
  have e1: "get_schema_for_field (Suc 0) (spec_env []) (JSONSchema_init False) ex_empty_schema
        ex_slug_field
      = Some (Inr (ex_slug_fragment, JSONSchema_init False))"
    by code_simp
  have e2: "json_get ex_slug_fragment ''minLength'' = None" by code_simp
  have e3: "fclass ex_slug_field \<noteq> fields_String"
    by (simp add: ex_slug_field_def fields_String_def)
  have d: "\<not> issubclass (fclass ex_slug_field) fields_DateTime" by code_simp
  have f: "issubclass (fclass ex_slug_field) fields_String" by code_simp
  have i: "\<not> issubclass (fclass (plain_field fields_Integer ''n'')) fields_String"
    by code_simp
  note t = validator_dispatch_by_exact_class [OF c s n,
      where w = "spec_env []" and schema = ex_string_fragment and field = ex_slug_field
        and vs = "[ex_one_of]" and obj = ex_empty_schema and ?vs1.0 = "[]"
        and ?vs2.0 = "[ex_one_of]" and n = 0 and self = "JSONSchema_init False"
        and pre = "[(fields_DateTime, PT Py_datetime)]" and fld = ex_slug_field
        and map_class = fields_String and p = "PT Py_text_type"
        and post = "[(fields_Field, PT Py_dict)]"]
  note u = validator_dispatch_by_exact_class [OF c s n,
      where fld = "plain_field fields_Integer ''n''"
        and mapping = "[(fields_String, PT Py_text_type)]"]
  note skip = t [THEN conjunct1]
  note tie = t [THEN conjunct2, THEN conjunct2, THEN conjunct1, rule_format, OF e0]
  have pre: "\<forall>(c', q) \<in> set [(fields_DateTime, PT Py_datetime)].
               \<not> issubclass (fclass ex_slug_field) c'"
    using d by simp
  note first = t [THEN conjunct2, THEN conjunct2, THEN conjunct2, THEN conjunct1,
    THEN mp, OF conjI [OF pre f]]
  have none: "\<forall>(c', q) \<in> set [(fields_String, PT Py_text_type)].
               \<not> issubclass (fclass (plain_field fields_Integer ''n'')) c'"
    using i by simp
  note nomatch = u [THEN conjunct2, THEN conjunct2, THEN conjunct2, THEN conjunct2,
    THEN conjunct1, THEN mp, OF none]
  from c s n skip e0 tie e1 e2 e3 d f first i nomatch show ?thesis by (intro conjI)
qed

section \<open>\<open>additionalProperties\<close>\<close>

text \<open>
  Claim C6. An explicit \<open>additional_properties\<close> that is not a boolean is to raise the
  configuration error. The test \<open>additional_properties in (True, False)\<close> compares with
  \<open>==\<close>, under which the integers 1 and 0 equal \<open>True\<close> and \<open>False\<close>: the integer 1
  is returned as it is, and no error is raised.
\<close>

theorem additional_properties_integer_accepted:
  "resolve_additional_properties ex_int_override_class = Inr (JInt 1)"
  by (simp add: resolve_additional_properties_def ex_int_override_class_def
      getattr_or_None_def py_in_def)

text \<open>What the function returns for every value of the two options.\<close>

lemma resolve_additional_properties_cases:
  "resolve_additional_properties c =
    (case additional_properties (Meta c) of
       Some (JBool b) \<Rightarrow> Inr (JBool b)
     | Some (JInt i) \<Rightarrow> if i = 0 \<or> i = 1 then Inr (JInt i)
         else Inl (UnsupportedValueError ''`additional_properties` must be either True or False'')
     | Some JNull \<Rightarrow> (case unknown (Meta c) of
          None \<Rightarrow> Inr (JBool False) | Some JNull \<Rightarrow> Inr (JBool False)
        | Some u \<Rightarrow> if u = JStr ''raise'' \<or> u = JStr ''exclude'' then Inr (JBool False)
            else if u = JStr ''include'' then Inr (JBool True)
            else Inl (UnsupportedValueError ''Unknown value for `unknown`''))
     | None \<Rightarrow> (case unknown (Meta c) of
          None \<Rightarrow> Inr (JBool False) | Some JNull \<Rightarrow> Inr (JBool False)
        | Some u \<Rightarrow> if u = JStr ''raise'' \<or> u = JStr ''exclude'' then Inr (JBool False)
            else if u = JStr ''include'' then Inr (JBool True)
            else Inl (UnsupportedValueError ''Unknown value for `unknown`''))
     | Some _ \<Rightarrow> Inl (UnsupportedValueError ''`additional_properties` must be either True or False''))"
  by (auto simp: resolve_additional_properties_def getattr_or_None_def py_in_def RAISE_def
      EXCLUDE_def INCLUDE_def split: option.splits json.splits)

section \<open>Results, metadata and the instance: lemmas\<close>

lemma bind_res_Inr:
  "bind_res m f = Some (Inr y) \<longleftrightarrow> (\<exists>x. m = Some (Inr x) \<and> f x = Some (Inr y))"
  by (auto simp: bind_res_def split: option.splits sum.splits)

lemma lift_res_Inr: "lift_res r = Some (Inr x) \<longleftrightarrow> r = Inr x"
  by (simp add: lift_res_def)

lemma ok_Inr: "ok x = Some (Inr y) \<longleftrightarrow> x = y"
  by (simp add: ok_def)

lemma raise_Inr: "raise e \<noteq> Some (Inr y)"
  by (simp add: raise_def)

lemma copy_metadata_update:
  "copy_metadata js md = dict_update js (filter (\<lambda>(k, v). k \<noteq> ''metadata'') md)"
  by (induction md arbitrary: js) auto


lemma dict_get_filter_eq: "dict_get (filter (\<lambda>(k', v). k' \<noteq> x) d) x = None"
  by (induction d) auto

lemma dict_get_copy_metadata_other:
  assumes "k \<notin> set (dict_keys md) \<or> k = ''metadata''"
  shows "dict_get (copy_metadata js md) k = dict_get js k"
proof -
  have "dict_get (rev (filter (\<lambda>(k, v). k \<noteq> ''metadata'') md)) k = None"
    using assms by (auto simp: dict_get_None_iff dict_keys_def)
  then show ?thesis by (simp add: copy_metadata_update dict_get_update)
qed


lemma dict_keys_update:
  "set (dict_keys (dict_update d e)) = set (dict_keys d) \<union> set (dict_keys e)"
  by (induction e arbitrary: d) (auto simp: dict_keys_set, auto simp: dict_keys_def)

lemma frame_ok_refl: "frame_ok self self"
  by (simp add: frame_ok_def)

lemma frame_ok_trans: "frame_ok a b \<Longrightarrow> frame_ok b c \<Longrightarrow> frame_ok a c"
  by (auto simp: frame_ok_def)

lemma rec_frameD: "rec_frame rec \<Longrightarrow> rec self obj field = Some (Inr (r, self')) \<Longrightarrow> frame_ok self self'"
  by (auto simp: rec_frame_def)

lemma properties_loop_frame:
  assumes "rec_frame rec"
  shows "properties_loop rec self obj fs ps = Some (Inr (p, self')) \<Longrightarrow> frame_ok self self'"
proof (induction fs arbitrary: self ps)
  case Nil
  then show ?case by (simp add: ok_Inr frame_ok_refl)
next
  case (Cons a fs)
  obtain fn f where a: "a = (fn, f)" by (cases a)
  from Cons.prems obtain schema self1 where
    r: "rec self obj f = Some (Inr (schema, self1))" and
    l: "properties_loop rec self1 obj fs (dict_set ps (name f) schema) = Some (Inr (p, self'))"
    by (auto simp: a bind_res_Inr)
  from rec_frameD [OF assms r] Cons.IH [OF l] show ?case by (rule frame_ok_trans)
qed

lemma from_nested_schema_frame:
  "from_nested_schema rec w self obj field = Some (Inr (r, self')) \<Longrightarrow> frame_ok self self'"
  by (auto simp: from_nested_schema_def bind_res_Inr lift_res_Inr ok_Inr Let_def frame_ok_def
      dict_keys_update dict_keys_set split: prod.splits if_splits)

lemma from_python_type_frame:
  "rec_frame rec \<Longrightarrow> from_python_type rec self obj field p = Some (Inr (r, self'))
    \<Longrightarrow> frame_ok self self'"
  by (auto simp: from_python_type_def bind_res_Inr lift_res_Inr ok_Inr raise_Inr Let_def
      frame_ok_refl split: option.splits if_splits dest: rec_frameD)

lemma resolve_schema_frame:
  assumes "rec_frame rec" and "resolve_schema rec w self obj field = Some (Inr (r, self'))"
  shows "frame_ok self self'"
proof (cases "jsonschema_type_mapping field")
  case (Some a)
  with assms(2) show ?thesis by (simp add: resolve_schema_def ok_Inr frame_ok_refl)
next
  case None
  note no_method = this
  show ?thesis
  proof (cases "dict_get (metadata field) ''_jsonschema_type_mapping''")
    case (Some a)
    with assms(2) no_method show ?thesis
      by (simp add: resolve_schema_def ok_Inr frame_ok_refl)
  next
    case None
    with assms(2) no_method obtain pytype where
      call: "(case pytype of
                Meth m \<Rightarrow> if m = ''_from_nested_schema''
                          then from_nested_schema rec w self obj field
                          else raise (AttributeError m)
              | PT p \<Rightarrow> from_python_type rec self obj field p) = Some (Inr (r, self'))"
      by (auto simp: resolve_schema_def bind_res_Inr lift_res_Inr)
    show ?thesis
    proof (cases pytype)
      case (PT p)
      with call show ?thesis by (auto dest: from_python_type_frame [OF assms(1)])
    next
      case (Meth m)
      with call show ?thesis
        by (auto simp: raise_Inr split: if_splits dest: from_nested_schema_frame)
    qed
  qed
qed

lemma get_schema_for_field_body_frame:
  assumes "rec_frame rec"
    and "get_schema_for_field_body rec w self obj field = Some (Inr (r, self'))"
  shows "frame_ok self self'"
  using assms(2)
  by (auto simp: get_schema_for_field_body_def bind_res_Inr lift_res_Inr ok_Inr
      dest: resolve_schema_frame [OF assms(1)])

lemma get_schema_for_field_frame: "rec_frame (get_schema_for_field n w)"
proof (induction n)
  case 0
  show ?case by (simp add: rec_frame_def)
next
  case (Suc n)
  show ?case
    unfolding rec_frame_def
    by (auto dest: get_schema_for_field_body_frame [OF Suc])
qed

section \<open>Nested fields\<close>

lemma from_nested_schema_many_result:
  assumes "from_nested_schema rec w self obj field = Some (Inr (frag, self'))"
    and "many field"
    and "resolve_nested w field = Inr (nm, c, i)"
    and "effective_metadata (metadata field) = Inr md"
  shows "frag = JObj [(''type'', if required field then JStr ''array''
                                   else JArr [JStr ''array'', JStr ''null'']),
                      (''items'', JObj (copy_metadata
                          [(''type'', JStr ''object''),
                           (''$ref'', JStr (''#/definitions/'' @ nm))] md))]"
  using assms
  by (auto simp: from_nested_schema_def bind_res_Inr lift_res_Inr ok_Inr Let_def
      split: prod.splits)

lemma from_nested_schema_many_known:
  assumes "many field"
    and "resolve_nested w field = Inr (nm, c, i)"
    and "effective_metadata (metadata field) = Inr md"
    and "nm \<in> set (dict_keys (nested_schema_classes self)) \<or> nm = sc_name (cls obj)"
  shows "from_nested_schema rec w self obj field
     = Some (Inr (JObj [(''type'', if required field then JStr ''array''
                                   else JArr [JStr ''array'', JStr ''null'']),
                        (''items'', JObj (copy_metadata
                            [(''type'', JStr ''object''),
                             (''$ref'', JStr (''#/definitions/'' @ nm))] md))], self))"
  using assms by (auto simp: from_nested_schema_def bind_res_def lift_res_def ok_def)

lemma from_nested_schema_many_compiled:
  assumes "many field"
    and "resolve_nested w field = Inr (nm, c, i)"
    and "effective_metadata (metadata field) = Inr md"
    and "nm \<notin> set (dict_keys (nested_schema_classes self))"
    and "nm \<noteq> sc_name (cls obj)"
    and "dump rec (JSONSchema_init True) i = Some (Inr (data, wn))"
    and "resolve_additional_properties c = Inr ap"
  shows "from_nested_schema rec w self obj field
     = Some (Inr (JObj [(''type'', if required field then JStr ''array''
                                   else JArr [JStr ''array'', JStr ''null'']),
                        (''items'', JObj (copy_metadata
                            [(''type'', JStr ''object''),
                             (''$ref'', JStr (''#/definitions/'' @ nm))] md))],
          self\<lparr>nested_schema_classes :=
            dict_update
              (dict_set (nested_schema_classes self) nm
                 (JObj (dict_set data ''additionalProperties'' ap)))
              (nested_schema_classes wn)\<rparr>))"
  using assms by (simp add: from_nested_schema_def bind_res_def lift_res_def ok_def)

lemma custom_fragment_None:
  "custom_fragment field = None \<Longrightarrow>
     jsonschema_type_mapping field = None
     \<and> dict_get (metadata field) ''_jsonschema_type_mapping'' = None"
  by (auto simp: custom_fragment_def split: option.splits)

lemma resolve_schema_nested_route:
  assumes "custom_fragment field = None"
    and "get_pytype field (get_default_mapping obj) = Inr (Meth ''_from_nested_schema'')"
  shows "resolve_schema rec w self obj field = from_nested_schema rec w self obj field"
  using custom_fragment_None [OF assms(1)] assms(2)
  by (simp add: resolve_schema_def bind_res_def lift_res_def)

text \<open>
  Claim C8 says that every nested field with \<open>many\<close> set gets the wrapper. A nested field
  with a custom fragment does not: \<open>_from_nested_schema\<close> is not called for it, and its
  fragment is the custom fragment, without \<open>items\<close>.
\<close>

theorem many_nested_with_custom_fragment_counterexample:
  "issubclass (fclass ex_many_override_field) fields_Nested
   \<and> many ex_many_override_field
   \<and> get_schema_for_field 1 (spec_env []) (JSONSchema_init False)
        (instantiate ex_Person None []) ex_many_override_field
      = Some (Inr (JObj [(''type'', JStr ''string'')], JSONSchema_init False))
   \<and> json_get (JObj [(''type'', JStr ''string'')]) ''items'' = None"
  by code_simp

text \<open>
  Claim C8, amended. For a field with \<open>many\<close> set and without a custom fragment that is
  resolved as a nested field, with its target found and its metadata merged, the
  fragment that \<open>_get_schema_for_field\<close> hands to the validators is the wrapper: \<open>type\<close>
  is \<open>"array"\<close> for a required field and \<open>["array", "null"]\<close> otherwise, and \<open>items\<close> is
  the reference fragment of the target with the metadata of the field, whose \<open>$ref\<close> is
  \<open>#/definitions/<name>\<close> unless the metadata has a \<open>$ref\<close>. Whatever the call returns
  is this wrapper after the validators; and the call does return it, when the name of the
  target is in the cache or is the name of the schema at hand, and when the dump of the
  target by the new compiler returns and the target's \<open>additionalProperties\<close> resolves.
\<close>

theorem nested_many_wrapper:
  assumes "custom_fragment field = None"
    and "get_pytype field (get_default_mapping obj) = Inr (Meth ''_from_nested_schema'')"
    and "many field"
    and "resolve_nested w field = Inr (nm, c, i)"
    and "effective_metadata (metadata field) = Inr md"
  shows "(\<forall>out self'.
            get_schema_for_field (Suc n) w self obj field = Some (Inr (out, self')) \<longrightarrow>
            apply_validators w
              (JObj [(''type'', if required field then JStr ''array''
                                else JArr [JStr ''array'', JStr ''null'']),
                     (''items'', JObj (copy_metadata
                         [(''type'', JStr ''object''),
                          (''$ref'', JStr (''#/definitions/'' @ nm))] md))])
              field (validators field) obj = Inr out)
       \<and> (nm \<in> set (dict_keys (nested_schema_classes self)) \<or> nm = sc_name (cls obj) \<longrightarrow>
            get_schema_for_field (Suc n) w self obj field =
              (case apply_validators w
                      (JObj [(''type'', if required field then JStr ''array''
                                        else JArr [JStr ''array'', JStr ''null'']),
                             (''items'', JObj (copy_metadata
                                 [(''type'', JStr ''object''),
                                  (''$ref'', JStr (''#/definitions/'' @ nm))] md))])
                      field (validators field) obj of
                 Inl e \<Rightarrow> Some (Inl e)
               | Inr out \<Rightarrow> Some (Inr (out, self))))
       \<and> (\<forall>data wn ap.
            nm \<notin> set (dict_keys (nested_schema_classes self)) \<and> nm \<noteq> sc_name (cls obj)
            \<and> JSONSchema_dump n w (JSONSchema_init True) i = Some (Inr (data, wn))
            \<and> resolve_additional_properties c = Inr ap \<longrightarrow>
            get_schema_for_field (Suc n) w self obj field =
              (case apply_validators w
                      (JObj [(''type'', if required field then JStr ''array''
                                        else JArr [JStr ''array'', JStr ''null'']),
                             (''items'', JObj (copy_metadata
                                 [(''type'', JStr ''object''),
                                  (''$ref'', JStr (''#/definitions/'' @ nm))] md))])
                      field (validators field) obj of
                 Inl e \<Rightarrow> Some (Inl e)
               | Inr out \<Rightarrow>
                   Some (Inr (out, self\<lparr>nested_schema_classes :=
                     dict_update
                       (dict_set (nested_schema_classes self) nm
                          (JObj (dict_set data ''additionalProperties'' ap)))
                       (nested_schema_classes wn)\<rparr>))))
       \<and> (''$ref'' \<notin> set (dict_keys md) \<longrightarrow>
            dict_get (copy_metadata [(''type'', JStr ''object''),
                                     (''$ref'', JStr (''#/definitions/'' @ nm))] md) ''$ref''
              = Some (JStr (''#/definitions/'' @ nm)))"
proof -
  let ?rec = "get_schema_for_field n w"
  let ?wr = "JObj [(''type'', if required field then JStr ''array''
                                else JArr [JStr ''array'', JStr ''null'']),
                     (''items'', JObj (copy_metadata
                         [(''type'', JStr ''object''),
                          (''$ref'', JStr (''#/definitions/'' @ nm))] md))]"
  note route = resolve_schema_nested_route [OF assms(1) assms(2)]
  have a: "apply_validators w ?wr field (validators field) obj = Inr out"
    if "get_schema_for_field (Suc n) w self obj field = Some (Inr (out, self'))" for out self'
  proof -
    from that obtain s where
      r: "from_nested_schema ?rec w self obj field = Some (Inr (s, self'))" and
      v: "apply_validators w s field (validators field) obj = Inr out"
      unfolding get_schema_for_field_Suc route
      by (auto split: option.splits sum.splits prod.splits)
    from from_nested_schema_many_result [OF r assms(3) assms(4) assms(5)] v
    show ?thesis by simp
  qed
  have b: "get_schema_for_field (Suc n) w self obj field =
              (case apply_validators w ?wr field (validators field) obj of
                 Inl e \<Rightarrow> Some (Inl e)
               | Inr out \<Rightarrow> Some (Inr (out, self)))"
    if "nm \<in> set (dict_keys (nested_schema_classes self)) \<or> nm = sc_name (cls obj)"
    unfolding get_schema_for_field_Suc route
      from_nested_schema_many_known [OF assms(3) assms(4) assms(5) that]
    by simp
  have c: "get_schema_for_field (Suc n) w self obj field =
              (case apply_validators w ?wr field (validators field) obj of
                 Inl e \<Rightarrow> Some (Inl e)
               | Inr out \<Rightarrow>
                   Some (Inr (out, self\<lparr>nested_schema_classes :=
                     dict_update
                       (dict_set (nested_schema_classes self) nm
                          (JObj (dict_set data ''additionalProperties'' ap)))
                       (nested_schema_classes wn)\<rparr>)))"
    if "nm \<notin> set (dict_keys (nested_schema_classes self))" "nm \<noteq> sc_name (cls obj)"
      "JSONSchema_dump n w (JSONSchema_init True) i = Some (Inr (data, wn))"
      "resolve_additional_properties c = Inr ap" for data wn ap
    unfolding get_schema_for_field_Suc route
      from_nested_schema_many_compiled [OF assms(3) assms(4) assms(5) that(1) that(2)
        that(3) [unfolded JSONSchema_dump_def] that(4)]
    by simp
  have d: "''$ref'' \<notin> set (dict_keys md) \<longrightarrow>
            dict_get (copy_metadata [(''type'', JStr ''object''),
                                     (''$ref'', JStr (''#/definitions/'' @ nm))] md) ''$ref''
              = Some (JStr (''#/definitions/'' @ nm))"
    by (simp add: dict_get_copy_metadata_other)
  from a b c d show ?thesis by blast
qed

theorem nested_many_wrapper_witness:
  "custom_fragment ex_pets_field = None
   \<and> get_pytype ex_pets_field (get_default_mapping (instantiate ex_Person None []))
       = Inr (Meth ''_from_nested_schema'')
   \<and> many ex_pets_field
   \<and> resolve_nested (spec_env []) ex_pets_field
       = Inr (''Pet'', ex_Pet, instantiate ex_Pet None [])
   \<and> effective_metadata (metadata ex_pets_field) = Inr []
   \<and> ''Pet'' \<notin> set (dict_keys (nested_schema_classes (JSONSchema_init False)))
   \<and> ''Pet'' \<noteq> sc_name (cls (instantiate ex_Person None []))
   \<and> JSONSchema_dump 1 (spec_env []) (JSONSchema_init True) (instantiate ex_Pet None [])
       = Some (Inr (ex_Pet_nested_data, ex_Pet_nested_compiler))
   \<and> resolve_additional_properties ex_Pet = Inr (JBool False)
   \<and> get_schema_for_field (Suc 1) (spec_env []) (JSONSchema_init False)
        (instantiate ex_Person None []) ex_pets_field =
       (case apply_validators (spec_env [])
               (JObj [(''type'', if required ex_pets_field then JStr ''array''
                                 else JArr [JStr ''array'', JStr ''null'']),
                      (''items'', JObj (copy_metadata
                          [(''type'', JStr ''object''),
                           (''$ref'', JStr (''#/definitions/'' @ ''Pet''))] []))])
               ex_pets_field (validators ex_pets_field) (instantiate ex_Person None []) of
          Inl e \<Rightarrow> Some (Inl e)
        | Inr out \<Rightarrow>
            Some (Inr (out, (JSONSchema_init False)\<lparr>nested_schema_classes :=
              dict_update
                (dict_set (nested_schema_classes (JSONSchema_init False)) ''Pet''
                   (JObj (dict_set ex_Pet_nested_data ''additionalProperties'' (JBool False))))
                (nested_schema_classes ex_Pet_nested_compiler)\<rparr>)))
   \<and> get_schema_for_field (Suc 1) (spec_env []) (JSONSchema_init False)
        (instantiate ex_Person None []) ex_pets_field
       = Some (Inr (ex_pets_fragment,
            \<lparr>nested_schema_classes = [(''Pet'', ex_Pet_fragment)],
             js_nested = False, js_obj = None\<rparr>))
   \<and> apply_validators (spec_env [])
        (JObj [(''type'', if required ex_pets_field then JStr ''array''
                          else JArr [JStr ''array'', JStr ''null'']),
               (''items'', JObj (copy_metadata
                   [(''type'', JStr ''object''),
                    (''$ref'', JStr (''#/definitions/'' @ ''Pet''))] []))])
        ex_pets_field (validators ex_pets_field) (instantiate ex_Person None [])
       = Inr ex_pets_fragment
   \<and> ''$ref'' \<notin> set (dict_keys ([] :: json dict))
   \<and> dict_get (copy_metadata [(''type'', JStr ''object''),
                               (''$ref'', JStr (''#/definitions/'' @ ''Pet''))] []) ''$ref''
       = Some (JStr (''#/definitions/'' @ ''Pet''))
   \<and> ''Pet'' \<in> set (dict_keys (nested_schema_classes ex_Pet_compiler))
   \<and> get_schema_for_field (Suc 0) (spec_env []) ex_Pet_compiler
        (instantiate ex_Person None []) ex_pets_field =
       (case apply_validators (spec_env [])
               (JObj [(''type'', if required ex_pets_field then JStr ''array''
                                 else JArr [JStr ''array'', JStr ''null'']),
                      (''items'', JObj (copy_metadata
                          [(''type'', JStr ''object''),
                           (''$ref'', JStr (''#/definitions/'' @ ''Pet''))] []))])
               ex_pets_field (validators ex_pets_field) (instantiate ex_Person None []) of
          Inl e \<Rightarrow> Some (Inl e)
        | Inr out \<Rightarrow> Some (Inr (out, ex_Pet_compiler)))
   \<and> get_schema_for_field (Suc 0) (spec_env []) ex_Pet_compiler
        (instantiate ex_Person None []) ex_pets_field
       = Some (Inr (ex_pets_fragment, ex_Pet_compiler))"
proof -
  let ?w = "spec_env []" and ?s = "JSONSchema_init False"
  let ?person = "instantiate ex_Person None []"
  have h1: "custom_fragment ex_pets_field = None" by code_simp
  have h2: "get_pytype ex_pets_field (get_default_mapping ?person)
       = Inr (Meth ''_from_nested_schema'')"
    by code_simp
  have h3: "many ex_pets_field" by (simp add: ex_pets_field_def)
  have h4: "resolve_nested ?w ex_pets_field
       = Inr (''Pet'', ex_Pet, instantiate ex_Pet None [])"
    by code_simp
  have h5: "effective_metadata (metadata ex_pets_field) = Inr []" by code_simp
  have e1: "''Pet'' \<notin> set (dict_keys (nested_schema_classes ?s))"
    by (simp add: JSONSchema_init_def dict_keys_def)
  have e2: "''Pet'' \<noteq> sc_name (cls ?person)"
    by (simp add: instantiate_def ex_Person_def)
  have e3: "JSONSchema_dump 1 ?w (JSONSchema_init True) (instantiate ex_Pet None [])
       = Some (Inr (ex_Pet_nested_data, ex_Pet_nested_compiler))"
    by code_simp
  have e4: "resolve_additional_properties ex_Pet = Inr (JBool False)" by code_simp
  have e5: "get_schema_for_field (Suc 1) ?w ?s ?person ex_pets_field
       = Some (Inr (ex_pets_fragment,
            \<lparr>nested_schema_classes = [(''Pet'', ex_Pet_fragment)],
             js_nested = False, js_obj = None\<rparr>))"
    by code_simp
  have e6: "''$ref'' \<notin> set (dict_keys ([] :: json dict))" by (simp add: dict_keys_def)
  have k1: "''Pet'' \<in> set (dict_keys (nested_schema_classes ex_Pet_compiler))"
    by code_simp
  have k2: "get_schema_for_field (Suc 0) ?w ex_Pet_compiler ?person ex_pets_field
       = Some (Inr (ex_pets_fragment, ex_Pet_compiler))"
    by code_simp
  note t = nested_many_wrapper [OF h1 h2 h3 h4 h5, where n = 1 and self = ?s]
  note u = nested_many_wrapper [OF h1 h2 h3 h4 h5, where n = 0 and self = ex_Pet_compiler]
  note a = t [THEN conjunct1, rule_format, OF e5]
  note c = t [THEN conjunct2, THEN conjunct2, THEN conjunct1, rule_format,
    OF conjI [OF e1 conjI [OF e2 conjI [OF e3 e4]]]]
  note d = t [THEN conjunct2, THEN conjunct2, THEN conjunct2, rule_format, OF e6]
  note b = u [THEN conjunct2, THEN conjunct1, rule_format, OF disjI1 [OF k1]]
  from h1 h2 h3 h4 h5 e1 e2 e3 e4 c e5 a e6 d k1 b k2 show ?thesis by (intro conjI)
qed

section \<open>\<open>dump\<close>, \<open>wrap\<close> and \<open>required\<close>\<close>


lemma wrap_root:
  assumes "\<not> js_nested s" and "js_obj s = Some obj" and "wrap s data = Some (Inr (out, s'))"
  shows "\<exists>ap. resolve_additional_properties (cls obj) = Inr ap
          \<and> nested_schema_classes s' = dict_set (nested_schema_classes s) (sc_name (cls obj))
                (JObj (dict_set data ''additionalProperties'' ap))
          \<and> js_nested s' = js_nested s \<and> js_obj s' = js_obj s
          \<and> out = [(''$schema'', JStr ''http://json-schema.org/draft-07/schema#''),
                    (''definitions'', JObj (nested_schema_classes s')),
                    (''$ref'', JStr (''#/definitions/'' @ sc_name (cls obj)))]"
  using assms
  by (auto simp: wrap_def bind_res_Inr lift_res_Inr ok_Inr Let_def)

lemma dump_result:
  assumes "JSONSchema_dump n w self obj = Some (Inr (out, self'))"
  shows "\<exists>props self1.
           get_properties (get_schema_for_field n w) (self\<lparr>js_obj := Some obj\<rparr>) obj
             = Some (Inr (props, self1))
         \<and> frame_ok (self\<lparr>js_obj := Some obj\<rparr>) self1
         \<and> wrap self1 (serialize props (get_required obj)) = Some (Inr (out, self'))"
proof -
  from assms obtain props self1 where
    g: "get_properties (get_schema_for_field n w) (self\<lparr>js_obj := Some obj\<rparr>) obj
          = Some (Inr (props, self1))" and
    w: "wrap self1 (serialize props (get_required obj)) = Some (Inr (out, self'))"
    by (auto simp: JSONSchema_dump_def dump_def bind_res_Inr Let_def)
  from g have "frame_ok (self\<lparr>js_obj := Some obj\<rparr>) self1"
    unfolding get_properties_def
    by (rule properties_loop_frame [OF get_schema_for_field_frame])
  with g w show ?thesis by blast
qed






section \<open>The cache of nested schemas\<close>

text \<open>
  Claim C2 says that every root dump works on a cache of its own, so that no entry of one
  dump shows in the output of a later one. The cache is made in \<open>__init__\<close> and kept on
  the instance: after a dump of the pet schema, a dump of a schema without fields on the
  same compiler has the entry \<open>Pet\<close> in its \<open>definitions\<close>.
\<close>

theorem registry_kept_between_dumps_counterexample:
  "JSONSchema_dump 1 (spec_env []) (JSONSchema_init False) (instantiate ex_Pet None [])
     = Some (Inr (ex_Pet_document, ex_Pet_compiler))
   \<and> JSONSchema_dump 1 (spec_env []) ex_Pet_compiler ex_empty_schema
     = Some (Inr (ex_Empty_after_Pet_document, ex_Empty_after_Pet_compiler))
   \<and> dict_get ex_Empty_after_Pet_document ''definitions''
     = Some (JObj [(''Pet'', ex_Pet_fragment), (''Empty'', ex_Empty_fragment)])"
  by code_simp

lemma from_nested_schema_compiles_fresh:
  assumes "from_nested_schema rec w s ob f = Some (Inr (frag, s'))"
    and "resolve_nested w f = Inr (nm, c, i)"
    and "nm \<notin> set (dict_keys (nested_schema_classes s))"
    and "nm \<noteq> sc_name (cls ob)"
  shows "\<exists>data wn ap.
           dump rec (JSONSchema_init True) i = Some (Inr (data, wn))
         \<and> resolve_additional_properties c = Inr ap
         \<and> s' = s\<lparr>nested_schema_classes :=
                  dict_update
                    (dict_set (nested_schema_classes s) nm
                       (JObj (dict_set data ''additionalProperties'' ap)))
                    (nested_schema_classes wn)\<rparr>"
  using assms
  by (auto simp: from_nested_schema_def bind_res_Inr lift_res_Inr ok_Inr Let_def
      split: prod.splits)

lemma from_nested_schema_known_unchanged:
  assumes "from_nested_schema rec w s ob f = Some (Inr (frag, s'))"
    and "resolve_nested w f = Inr (nm, c, i)"
    and "nm \<in> set (dict_keys (nested_schema_classes s)) \<or> nm = sc_name (cls ob)"
  shows "s' = s"
  using assms
  by (auto simp: from_nested_schema_def bind_res_Inr lift_res_Inr ok_Inr Let_def
      split: prod.splits)

text \<open>
  Claim C2, amended. The cache belongs to the compiler instance. It is empty when an
  instance is made, for a root and for a nested compiler. A nested schema is compiled by
  a newly made instance, and the caller stores the entry of the nested schema and then
  every entry of the new instance's cache; for a schema that is in the cache or is the
  schema at hand the instance stays as it is. The cache is not discarded after \<open>wrap\<close>:
  the \<open>definitions\<close> of a root dump is the cache of the instance after the dump, and
  this cache has every name that the instance had before the dump.
\<close>

theorem registry_belongs_to_instance:
  assumes "JSONSchema_dump n w self obj = Some (Inr (doc, self'))"
    and "\<not> js_nested self"
  shows "dict_get doc ''definitions'' = Some (JObj (nested_schema_classes self'))
       \<and> set (dict_keys (nested_schema_classes self))
           \<subseteq> set (dict_keys (nested_schema_classes self'))
       \<and> nested_schema_classes (JSONSchema_init b) = []
       \<and> (\<forall>rec s ob f frag s' nm c i.
            from_nested_schema rec w s ob f = Some (Inr (frag, s'))
            \<and> resolve_nested w f = Inr (nm, c, i)
            \<and> nm \<notin> set (dict_keys (nested_schema_classes s))
            \<and> nm \<noteq> sc_name (cls ob) \<longrightarrow>
            (\<exists>data wn ap.
               dump rec (JSONSchema_init True) i = Some (Inr (data, wn))
             \<and> resolve_additional_properties c = Inr ap
             \<and> s' = s\<lparr>nested_schema_classes :=
                      dict_update
                        (dict_set (nested_schema_classes s) nm
                           (JObj (dict_set data ''additionalProperties'' ap)))
                        (nested_schema_classes wn)\<rparr>))
       \<and> (\<forall>rec s ob f frag s' nm c i.
            from_nested_schema rec w s ob f = Some (Inr (frag, s'))
            \<and> resolve_nested w f = Inr (nm, c, i)
            \<and> (nm \<in> set (dict_keys (nested_schema_classes s)) \<or> nm = sc_name (cls ob)) \<longrightarrow>
            s' = s)"
proof -
  from dump_result [OF assms(1)] obtain props self1 where
    f: "frame_ok (self\<lparr>js_obj := Some obj\<rparr>) self1" and
    w: "wrap self1 (serialize props (get_required obj)) = Some (Inr (doc, self'))"
    by blast
  from f assms(2) have n: "\<not> js_nested self1" and o: "js_obj self1 = Some obj"
    and k: "set (dict_keys (nested_schema_classes self))
             \<subseteq> set (dict_keys (nested_schema_classes self1))"
    by (simp_all add: frame_ok_def)
  from wrap_root [OF n o w] obtain ap where
    out: "doc = [(''$schema'', JStr ''http://json-schema.org/draft-07/schema#''),
                 (''definitions'', JObj (nested_schema_classes self')),
                 (''$ref'', JStr (''#/definitions/'' @ sc_name (cls obj)))]" and
    reg: "nested_schema_classes self' = dict_set (nested_schema_classes self1)
            (sc_name (cls obj))
            (JObj (dict_set (serialize props (get_required obj)) ''additionalProperties'' ap))"
    by blast
  have "set (dict_keys (nested_schema_classes self1))
          \<subseteq> set (dict_keys (nested_schema_classes self'))"
    by (auto simp: reg dict_keys_set)
  with k have keys: "set (dict_keys (nested_schema_classes self))
           \<subseteq> set (dict_keys (nested_schema_classes self'))"
    by blast
  have defs: "dict_get doc ''definitions'' = Some (JObj (nested_schema_classes self'))"
    by (simp add: out)
  have init: "nested_schema_classes (JSONSchema_init b) = []"
    by (simp add: JSONSchema_init_def)
  from defs keys init show ?thesis
    by (intro conjI allI impI)
       (assumption | elim conjE
        | erule (3) from_nested_schema_compiles_fresh
        | erule (2) from_nested_schema_known_unchanged)+
qed

theorem registry_belongs_to_instance_witness:
  "\<not> js_nested ex_Pet_compiler
   \<and> JSONSchema_dump 1 (spec_env []) ex_Pet_compiler ex_empty_schema
     = Some (Inr (ex_Empty_after_Pet_document, ex_Empty_after_Pet_compiler))
   \<and> dict_get ex_Empty_after_Pet_document ''definitions''
       = Some (JObj (nested_schema_classes ex_Empty_after_Pet_compiler))
   \<and> set (dict_keys (nested_schema_classes ex_Pet_compiler))
       \<subseteq> set (dict_keys (nested_schema_classes ex_Empty_after_Pet_compiler))
   \<and> nested_schema_classes (JSONSchema_init True) = []
   \<and> from_nested_schema (get_schema_for_field 1 (spec_env [])) (spec_env [])
        (JSONSchema_init False) (instantiate ex_Person None []) ex_pets_field
      = Some (Inr (ex_pets_fragment,
           \<lparr>nested_schema_classes = [(''Pet'', ex_Pet_fragment)],
            js_nested = False, js_obj = None\<rparr>))
   \<and> resolve_nested (spec_env []) ex_pets_field
      = Inr (''Pet'', ex_Pet, instantiate ex_Pet None [])
   \<and> ''Pet'' \<notin> set (dict_keys (nested_schema_classes (JSONSchema_init False)))
   \<and> ''Pet'' \<noteq> sc_name (cls (instantiate ex_Person None []))
   \<and> (\<exists>data wn ap.
         dump (get_schema_for_field 1 (spec_env [])) (JSONSchema_init True)
           (instantiate ex_Pet None []) = Some (Inr (data, wn))
       \<and> resolve_additional_properties ex_Pet = Inr ap
       \<and> \<lparr>nested_schema_classes = [(''Pet'', ex_Pet_fragment)],
            js_nested = False, js_obj = None\<rparr>
           = (JSONSchema_init False)\<lparr>nested_schema_classes :=
               dict_update
                 (dict_set (nested_schema_classes (JSONSchema_init False)) ''Pet''
                    (JObj (dict_set data ''additionalProperties'' ap)))
                 (nested_schema_classes wn)\<rparr>)"
proof -
  have h1: "JSONSchema_dump 1 (spec_env []) ex_Pet_compiler ex_empty_schema
     = Some (Inr (ex_Empty_after_Pet_document, ex_Empty_after_Pet_compiler))"
    by code_simp
  have h2: "\<not> js_nested ex_Pet_compiler" by (simp add: ex_Pet_compiler_def)
  have e1: "from_nested_schema (get_schema_for_field 1 (spec_env [])) (spec_env [])
        (JSONSchema_init False) (instantiate ex_Person None []) ex_pets_field
      = Some (Inr (ex_pets_fragment,
           \<lparr>nested_schema_classes = [(''Pet'', ex_Pet_fragment)],
            js_nested = False, js_obj = None\<rparr>))"
    by code_simp
  have e2: "resolve_nested (spec_env []) ex_pets_field
      = Inr (''Pet'', ex_Pet, instantiate ex_Pet None [])"
    by code_simp
  have e3: "''Pet'' \<notin> set (dict_keys (nested_schema_classes (JSONSchema_init False)))"
    by (simp add: JSONSchema_init_def dict_keys_def)
  have e4: "''Pet'' \<noteq> sc_name (cls (instantiate ex_Person None []))"
    by (simp add: instantiate_def ex_Person_def)
  note t = registry_belongs_to_instance [OF h1 h2, where b = True]
  from t have a: "dict_get ex_Empty_after_Pet_document ''definitions''
       = Some (JObj (nested_schema_classes ex_Empty_after_Pet_compiler))"
    and b: "set (dict_keys (nested_schema_classes ex_Pet_compiler))
       \<subseteq> set (dict_keys (nested_schema_classes ex_Empty_after_Pet_compiler))"
    and c: "nested_schema_classes (JSONSchema_init True) = []"
    by blast+
  from t e1 e2 e3 e4 have d: "\<exists>data wn ap.
         dump (get_schema_for_field 1 (spec_env [])) (JSONSchema_init True)
           (instantiate ex_Pet None []) = Some (Inr (data, wn))
       \<and> resolve_additional_properties ex_Pet = Inr ap
       \<and> \<lparr>nested_schema_classes = [(''Pet'', ex_Pet_fragment)],
            js_nested = False, js_obj = None\<rparr>
           = (JSONSchema_init False)\<lparr>nested_schema_classes :=
               dict_update
                 (dict_set (nested_schema_classes (JSONSchema_init False)) ''Pet''
                    (JObj (dict_set data ''additionalProperties'' ap)))
                 (nested_schema_classes wn)\<rparr>"
    by blast
  from h1 h2 a b c d e1 e2 e3 e4 show ?thesis by (intro conjI)
qed

section \<open>Schemas that nest each other\<close>

lemma bind_res_None: "m = None \<Longrightarrow> bind_res m f = None"
  by (simp add: bind_res_def)

lemma dump_None:
  assumes "sorted_fields i = (fn, f) # rest"
    and "rec (self\<lparr>js_obj := Some i\<rparr>) i f = None"
  shows "dump rec self i = None"
  using assms by (simp add: dump_def get_properties_def bind_res_def)

lemma from_nested_schema_None:
  assumes "resolve_nested w field = Inr (nm, c, i)"
    and "nm \<notin> set (dict_keys (nested_schema_classes self))"
    and "nm \<noteq> sc_name (cls obj)"
    and "dump rec (JSONSchema_init True) i = None"
  shows "from_nested_schema rec w self obj field = None"
  using assms by (simp add: from_nested_schema_def bind_res_def lift_res_def)

lemma resolve_schema_nested:
  assumes "jsonschema_type_mapping field = None"
    and "dict_get (metadata field) ''_jsonschema_type_mapping'' = None"
    and "get_pytype field (get_default_mapping obj) = Inr (Meth ''_from_nested_schema'')"
  shows "resolve_schema rec w self obj field = from_nested_schema rec w self obj field"
  using assms by (simp add: resolve_schema_def bind_res_def lift_res_def)

lemma get_schema_for_field_body_None:
  "resolve_schema rec w self obj field = None
    \<Longrightarrow> get_schema_for_field_body rec w self obj field = None"
  by (simp add: get_schema_for_field_body_def bind_res_def)

lemma ex_pytype_b:
  "get_pytype ex_field_b (get_default_mapping (instantiate ex_A None []))
     = Inr (Meth ''_from_nested_schema'')"
  by code_simp

lemma ex_pytype_a:
  "get_pytype ex_field_a (get_default_mapping (instantiate ex_B None []))
     = Inr (Meth ''_from_nested_schema'')"
  by code_simp

lemma ex_resolve_b:
  "resolve_nested ex_mutual_env ex_field_b = Inr (''B'', ex_B, instantiate ex_B None [])"
  by code_simp

lemma ex_resolve_a:
  "resolve_nested ex_mutual_env ex_field_a = Inr (''A'', ex_A, instantiate ex_A None [])"
  by code_simp

lemma ex_sorted_A: "sorted_fields (instantiate ex_A None []) = [(''b'', ex_field_b)]"
  by code_simp

lemma ex_sorted_B: "sorted_fields (instantiate ex_B None []) = [(''a'', ex_field_a)]"
  by code_simp

lemma ex_names:
  "sc_name (cls (instantiate ex_A None [])) = ''A''"
  "sc_name (cls (instantiate ex_B None [])) = ''B''"
  by (simp_all add: instantiate_def ex_A_def ex_B_def)

lemma ex_fields_plain:
  "jsonschema_type_mapping ex_field_a = None"
  "jsonschema_type_mapping ex_field_b = None"
  "dict_get (metadata ex_field_a) ''_jsonschema_type_mapping'' = None"
  "dict_get (metadata ex_field_b) ''_jsonschema_type_mapping'' = None"
  by (simp_all add: ex_field_a_def ex_field_b_def)

lemma mutual_fields_never_return:
  "(\<forall>self. ''B'' \<notin> set (dict_keys (nested_schema_classes self)) \<longrightarrow>
       get_schema_for_field n ex_mutual_env self (instantiate ex_A None []) ex_field_b = None)
   \<and> (\<forall>self. ''A'' \<notin> set (dict_keys (nested_schema_classes self)) \<longrightarrow>
       get_schema_for_field n ex_mutual_env self (instantiate ex_B None []) ex_field_a = None)"
proof (induction n)
  case 0
  show ?case by simp
next
  case (Suc n)
  let ?rec = "get_schema_for_field n ex_mutual_env"
  have fresh: "\<And>x i. x \<notin> set (dict_keys (nested_schema_classes
        ((JSONSchema_init True)\<lparr>js_obj := Some i\<rparr>)))"
    by (simp add: JSONSchema_init_def dict_keys_def)
  have dB: "dump ?rec (JSONSchema_init True) (instantiate ex_B None []) = None"
    using Suc fresh by (intro dump_None [OF ex_sorted_B]) blast
  have dA: "dump ?rec (JSONSchema_init True) (instantiate ex_A None []) = None"
    using Suc fresh by (intro dump_None [OF ex_sorted_A]) blast
  have b: "get_schema_for_field (Suc n) ex_mutual_env self (instantiate ex_A None []) ex_field_b
      = None" if "''B'' \<notin> set (dict_keys (nested_schema_classes self))" for self
  proof -
    have "from_nested_schema ?rec ex_mutual_env self (instantiate ex_A None []) ex_field_b = None"
      using that dB by (intro from_nested_schema_None [OF ex_resolve_b]) (simp_all add: ex_names)
    then show ?thesis
      by (simp add: get_schema_for_field_body_None
          resolve_schema_nested [OF ex_fields_plain(2) ex_fields_plain(4) ex_pytype_b])
  qed
  have a: "get_schema_for_field (Suc n) ex_mutual_env self (instantiate ex_B None []) ex_field_a
      = None" if "''A'' \<notin> set (dict_keys (nested_schema_classes self))" for self
  proof -
    have "from_nested_schema ?rec ex_mutual_env self (instantiate ex_B None []) ex_field_a = None"
      using that dA by (intro from_nested_schema_None [OF ex_resolve_a]) (simp_all add: ex_names)
    then show ?thesis
      by (simp add: get_schema_for_field_body_None
          resolve_schema_nested [OF ex_fields_plain(1) ex_fields_plain(3) ex_pytype_a])
  qed
  from a b show ?case by blast
qed

text \<open>
  Claim C1. A schema that nests itself, and two schemas that nest each other, are to
  compile without unbounded recursion. The compiler of a nested schema is a new instance
  with an empty cache, and the guard of \<open>_from_nested_schema\<close> looks at the cache of the
  instance at hand and at the name of the schema at hand only. For the schemas \<open>A\<close> and
  \<open>B\<close> that nest each other the dump of \<open>A\<close> therefore dumps \<open>B\<close>, which dumps \<open>A\<close>, and
  so on: whatever depth of calls is allowed, the dump uses it up and does not return.
\<close>

theorem mutual_reference_never_returns:
  "JSONSchema_dump n ex_mutual_env (JSONSchema_init False) (instantiate ex_A None []) = None"
proof -
  have "''B'' \<notin> set (dict_keys (nested_schema_classes
        ((JSONSchema_init False)\<lparr>js_obj := Some (instantiate ex_A None [])\<rparr>)))"
    by (simp add: JSONSchema_init_def dict_keys_def)
  with mutual_fields_never_return [of n] have
    "get_schema_for_field n ex_mutual_env
       ((JSONSchema_init False)\<lparr>js_obj := Some (instantiate ex_A None [])\<rparr>)
       (instantiate ex_A None []) ex_field_b = None"
    by blast
  then show ?thesis
    unfolding JSONSchema_dump_def by (rule dump_None [OF ex_sorted_A])
qed

text \<open>
  The second half of the claim holds: a field that nests the schema at hand makes no
  recursive call at all, and the dump of a schema that nests itself has the one entry of
  that schema, with a reference as the fragment of the field.
\<close>

lemma direct_self_reference_no_recursion:
  assumes "resolve_nested w field = Inr (nm, c, i)"
    and "nm = sc_name (cls obj)"
    and "effective_metadata (metadata field) = Inr md"
    and "\<not> many field"
  shows "from_nested_schema rec w self obj field
     = Some (Inr (JObj (copy_metadata [(''type'', JStr ''object''),
                                       (''$ref'', JStr (''#/definitions/'' @ nm))] md), self))"
  using assms by (simp add: from_nested_schema_def bind_res_def lift_res_def ok_def)

lemma self_reference_compiles:
  "JSONSchema_dump 1 ex_mutual_env (JSONSchema_init False) (instantiate ex_Node None [])
   = Some (Inr ([(''$schema'', JStr ''http://json-schema.org/draft-07/schema#''),
         (''definitions'',
          JObj [(''Node'',
             JObj [(''properties'',
                JObj [(''child'', JObj [(''type'', JStr ''object''),
                                        (''$ref'', JStr ''#/definitions/Node'')])]),
               (''type'', JStr ''object''),
               (''additionalProperties'', JBool False)])]),
         (''$ref'', JStr ''#/definitions/Node'')],
        \<lparr>nested_schema_classes =
          [(''Node'',
             JObj [(''properties'',
                JObj [(''child'', JObj [(''type'', JStr ''object''),
                                        (''$ref'', JStr ''#/definitions/Node'')])]),
               (''type'', JStr ''object''),
               (''additionalProperties'', JBool False)])],
         js_nested = False, js_obj = Some (instantiate ex_Node None [])\<rparr>))"
  by code_simp

section \<open>Fragments from the type table\<close>
























section \<open>The metadata objects: what the compiler changes\<close>

lemma dict_set_lit: "dict_set (lit_dict d) k (PLit v) = lit_dict (dict_set d k v)"
  by (induction d) (auto simp: lit_dict_def)

lemma dict_update_lit: "dict_update (lit_dict d) (lit_dict e) = lit_dict (dict_update d e)"
proof (induction e arbitrary: d)
  case Nil
  then show ?case by (simp add: lit_dict_def)
next
  case (Cons a e)
  obtain k v where a: "a = (k, v)" by (cases a)
  have "lit_dict (a # e) = (k, PLit v) # lit_dict e" by (simp add: a lit_dict_def)
  then show ?case by (simp add: a dict_set_lit Cons.IH)
qed

lemma dict_get_lit: "dict_get (lit_dict d) k = map_option PLit (dict_get d k)"
  by (induction d) (auto simp: lit_dict_def)

text \<open>
  Without a sub-mapping the two lines change no dict that was there, and the new dict is
  the effective metadata of the value model.
\<close>

lemma metadata_lines_no_submapping:
  assumes "dict_get st a = Some (lit_dict fm)" and "dict_get fm ''metadata'' = None"
  shows "\<exists>b st'. metadata_lines st a = Inr (b, st')
          \<and> effective_metadata fm = Inr (dict_update [] fm)
          \<and> dict_get st' b = Some (lit_dict (dict_update [] fm))"
proof -
  have "dict_update [] (lit_dict fm) = lit_dict (dict_update [] fm)"
    using dict_update_lit [of "[]" fm] by (simp add: lit_dict_def)
  with assms show ?thesis
    by (simp add: metadata_lines_def effective_metadata_def dict_get_lit dict_get_set Let_def)
qed

text \<open>
  With a sub-mapping the update is made on the sub-mapping itself: afterwards it has
  every key of the field's metadata, the key \<open>metadata\<close> with its own address among them.
\<close>

lemma metadata_lines_submapping:
  assumes "dict_get st a = Some fm" and "dict_get fm ''metadata'' = Some (PRef b)"
    and "dict_get st b = Some sub"
  shows "metadata_lines st a = Inr (b, dict_set st b (dict_update sub fm))
       \<and> set (dict_keys fm) \<subseteq> set (dict_keys (dict_update sub fm))"
  using assms by (simp add: metadata_lines_def dict_keys_update)

text \<open>
  Claim C3. The compiler is to leave the metadata of every field as it was, the
  \<open>metadata\<close> sub-mapping included. For a field whose metadata is
  \<open>{"metadata": {"description": "x"}}\<close> the two lines take the sub-mapping itself as
  \<open>metadata\<close> and update it with the field's metadata: after the call the dict of the
  caller has the second entry \<open>metadata\<close>, which is the dict itself.
\<close>

theorem metadata_submapping_mutated:
  "metadata_lines ex_store 0 = Inr (1, ex_store_after)
   \<and> dict_get ex_store 1 = Some [(''description'', PLit (JStr ''x''))]
   \<and> dict_get ex_store_after 1
       = Some [(''description'', PLit (JStr ''x'')), (''metadata'', PRef 1)]"
  by code_simp

end
